(* ===== verification/Prelude.thy ===== *)
theory Prelude
  imports Main "HOL-Library.Word" "HOL-Library.AList"
begin

text \<open>
  Shared vocabulary of the development: the machine types (bytes as \<open>8 word\<close>), the DOM
  element the preview is attached to, the collection \<open>world_simps\<close> that gathers the
  frame lemmas of the component model, and generic lemmas on bytes, lists and
  association lists used by the component theories.
\<close>

unbundle bit_operations_syntax

type_synonym byte = "8 word"

text \<open>
  The only DOM element the program hands to the graphics library: the 300x300
  preview \<open>div\<close> of \<^verbatim>\<open>QRGeneratorPro.tsx\<close> (lines 190--193), bound to \<open>qrRef\<close>.
\<close>

datatype element = PreviewDiv

named_theorems world_simps "frame and effect equations of the component's operations"

subsection \<open>Bytes, bit by bit\<close>

lemma byte_eq_bits:
  "(a::byte) = b \<longleftrightarrow>
     (bit a 0 = bit b 0 \<and> bit a 1 = bit b 1 \<and> bit a 2 = bit b 2 \<and> bit a 3 = bit b 3 \<and>
      bit a 4 = bit b 4 \<and> bit a 5 = bit b 5 \<and> bit a 6 = bit b 6 \<and> bit a 7 = bit b 7)"
proof
  assume h: "bit a 0 = bit b 0 \<and> bit a 1 = bit b 1 \<and> bit a 2 = bit b 2 \<and> bit a 3 = bit b 3 \<and>
      bit a 4 = bit b 4 \<and> bit a 5 = bit b 5 \<and> bit a 6 = bit b 6 \<and> bit a 7 = bit b 7"
  show "a = b"
  proof (rule bit_word_eqI)
    fix n :: nat
    assume "n < LENGTH(8)"
    then have "n < 8" by simp
    then consider "n = 0" | "n = 1" | "n = 2" | "n = 3" | "n = 4" | "n = 5" | "n = 6" | "n = 7"
      by arith
    then show "bit a n = bit b n" using h by cases simp_all
  qed
qed simp

lemma byte_bit_high: "8 \<le> n \<Longrightarrow> \<not> bit (x::byte) n"
  using bit_imp_le_length by fastforce

lemmas byte_bits = byte_eq_bits bit_simps byte_bit_high

text \<open>A byte whose two high bits are clear is a sextet, a value below 64.\<close>

lemma sextet_bound: "s AND 63 = s \<Longrightarrow> unat (s::byte) < 64"
proof -
  assume "s AND 63 = s"
  moreover have "unat (s AND 63) \<le> unat (63 :: byte)"
    by (rule word_and_le1 [THEN word_le_nat_alt [THEN iffD1]])
  ultimately show ?thesis by simp
qed

subsection \<open>Association lists\<close>

lemma delete_append [simp]: "AList.delete k (xs @ ys) = AList.delete k xs @ AList.delete k ys"
  by (simp add: AList.delete_eq)

lemma map_add_fresh [simp]: "k \<notin> fst ` set xs \<Longrightarrow> (m ++ map_of xs) k = m k"
  by (simp add: map_add_def map_of_eq_None_iff [THEN iffD2])

end
