(* ===== verification/QRCodeStyling.thy ===== *)
theory QRCodeStyling
  imports Prelude
begin

text \<open>
  The external library \<^verbatim>\<open>qr-code-styling\<close> as far as \<^verbatim>\<open>QRGeneratorPro.tsx\<close> uses
  it: the constructor, \<open>append\<close>, \<open>update\<close> and \<open>download\<close> of a
  \<open>QRCodeStyling\<close> instance. The library is not part of the repository; this theory
  models its documented behaviour (options merged deeply into the current ones, the
  container cleared and redrawn on every update, nothing drawn while \<open>data\<close> is empty,
  a download saving \<open>name.extension\<close>). Only the option keys the component sets are
  modelled; QR encoding, error correction and rendering are not.

  The component talks to the library only through the calls of the datatype
  \<open>qr_call\<close>; \<open>qr_apply\<close> is the library's answer to one call. This is the interface
  the two theories share.
\<close>

datatype draw_type = DrawCanvas | DrawSvg

text \<open>\<open>FileExtension\<close> of the library: \<^verbatim>\<open>"svg" | "png" | "jpeg" | "webp"\<close>.\<close>

datatype extension = Svg | Png | Jpeg | Webp

fun extension_name :: "extension \<Rightarrow> string" where
  "extension_name Svg = ''svg''"
| "extension_name Png = ''png''"
| "extension_name Jpeg = ''jpeg''"
| "extension_name Webp = ''webp''"

text \<open>
  The option keys the component passes to \<open>update\<close>: \<open>data\<close>, \<open>image\<close>,
  \<open>dotsOptions.color\<close>, \<open>dotsOptions.type\<close>, \<open>cornersDotOptions.type\<close>,
  \<open>cornersSquareOptions.type\<close> and \<open>backgroundOptions.color\<close>. \<open>image\<close> is
  \<open>None\<close> for \<open>undefined\<close>. The full options add the keys only the constructor sets.
\<close>

record style_options =
  opt_data :: string
  opt_image :: "string option"
  opt_dots_color :: string
  opt_dots_type :: string
  opt_corners_dot_type :: string
  opt_corners_square_type :: string
  opt_background_color :: string

record qr_options = style_options +
  opt_width :: nat
  opt_height :: nat
  opt_draw :: draw_type

text \<open>
  The instance: its options, the container of the last \<open>append\<close>, the data encoded
  by its QR matrix (\<open>_qr\<close>, built by the last \<open>update\<close> with non-empty data;
  \<open>None\<close> before any), whether the container currently shows a drawn symbol, and the
  files its downloads saved, each a file name with the data its QR code encodes.
\<close>

record qr_instance =
  inst_options :: qr_options
  inst_container :: "element option"
  inst_qr :: "string option"
  inst_shown :: bool
  inst_saved :: "(string \<times> string) list"

datatype qr_call =
    is_append: Append element
  | is_update: Update style_options
  | Download string extension

text \<open>
  The style vocabularies of the library's types \<open>DotType\<close>, \<open>CornerDotType\<close> and
  \<open>CornerSquareType\<close>.
\<close>

definition dot_types :: "string list" where
  "dot_types = [''dots'', ''rounded'', ''classy'', ''classy-rounded'', ''square'', ''extra-rounded'']"

definition corner_dot_types :: "string list" where
  "corner_dot_types = [''dot'', ''square'']"

definition corner_square_types :: "string list" where
  "corner_square_types = [''dot'', ''square'', ''extra-rounded'']"

text \<open>
  \<open>mergeDeep(this._options, options)\<close> for an options object with exactly the keys of
  \<open>style_options\<close>: each key present overwrites, nested objects are merged key by key,
  so the keys the object does not name (width, height, draw type) are kept.
\<close>

definition merge_options :: "qr_options \<Rightarrow> style_options \<Rightarrow> qr_options" where
  "merge_options opts u =
     opts\<lparr>opt_data := opt_data u, opt_image := opt_image u,
       opt_dots_color := opt_dots_color u, opt_dots_type := opt_dots_type u,
       opt_corners_dot_type := opt_corners_dot_type u,
       opt_corners_square_type := opt_corners_square_type u,
       opt_background_color := opt_background_color u\<rparr>"

text \<open>
  \<open>new QRCodeStyling(options)\<close>: the options are stored and \<open>update()\<close> runs once;
  with no container, the matrix is built and drawn off-screen, and only when \<open>data\<close>
  is non-empty.
\<close>

definition qr_construct :: "qr_options \<Rightarrow> qr_instance" where
  "qr_construct opts =
     \<lparr>inst_options = opts, inst_container = None,
      inst_qr = (if opt_data opts = [] then None else Some (opt_data opts)),
      inst_shown = False, inst_saved = []\<rparr>"

text \<open>
  \<open>append(container)\<close> attaches the drawn SVG, if there is one, and remembers the
  container. \<open>update(options)\<close> clears the container, merges the options and, unless
  \<open>data\<close> is empty (early return, the previous matrix is kept), builds the matrix,
  redraws and re-appends. \<open>download\<close> rejects with "QR code is empty" when no matrix
  was ever built; otherwise it saves \<open>name.extension\<close> holding the matrix it has.
\<close>

fun qr_apply :: "qr_instance \<Rightarrow> qr_call \<Rightarrow> qr_instance" where
  "qr_apply i (Append el) = i\<lparr>inst_container := Some el, inst_shown := (inst_qr i \<noteq> None)\<rparr>"
| "qr_apply i (Update u) =
     (let opts' = merge_options (inst_options i) u in
      if opt_data opts' = [] then i\<lparr>inst_options := opts', inst_shown := False\<rparr>
      else i\<lparr>inst_options := opts', inst_qr := Some (opt_data opts'),
               inst_shown := (inst_container i \<noteq> None)\<rparr>)"
| "qr_apply i (Download name ext) =
     (case inst_qr i of
        None \<Rightarrow> i
      | Some d \<Rightarrow> i\<lparr>inst_saved := inst_saved i @ [(name @ ''.'' @ extension_name ext, d)]\<rparr>)"

text \<open>A sequence of calls, applied in order.\<close>

definition qr_apply_all :: "qr_instance \<Rightarrow> qr_call list \<Rightarrow> qr_instance" where
  "qr_apply_all i cs = foldl qr_apply i cs"

text \<open>
  The data of the last \<open>update\<close> with non-empty data in a sequence of calls, starting
  from \<open>acc\<close>: the data the instance's QR matrix encodes after those calls.
\<close>

definition sent_data :: "string option \<Rightarrow> qr_call list \<Rightarrow> string option" where
  "sent_data acc cs =
     foldl (\<lambda>d c. case c of Update u \<Rightarrow> (if opt_data u = [] then d else Some (opt_data u)) | _ \<Rightarrow> d) acc cs"

subsection \<open>Properties of the library model\<close>

lemma merge_options_style [simp]: "style_options.truncate (merge_options opts u) = u"
  by (simp add: merge_options_def style_options.truncate_def)

lemma merge_options_frame [simp]:
  "opt_width (merge_options opts u) = opt_width opts"
  "opt_height (merge_options opts u) = opt_height opts"
  "opt_draw (merge_options opts u) = opt_draw opts"
  by (simp_all add: merge_options_def)

lemma merge_options_data [simp]: "opt_data (merge_options opts u) = opt_data u"
  by (simp add: merge_options_def)

lemma merge_options_twice [simp]: "merge_options (merge_options opts u) v = merge_options opts v"
  by (simp add: merge_options_def)

text \<open>What each call changes, field by field.\<close>

lemma qr_apply_options [simp]:
  "inst_options (qr_apply i (Append el)) = inst_options i"
  "inst_options (qr_apply i (Update u)) = merge_options (inst_options i) u"
  "inst_options (qr_apply i (Download n ext)) = inst_options i"
  by (simp_all add: Let_def split: option.splits)

lemma qr_apply_container [simp]:
  "inst_container (qr_apply i (Append el)) = Some el"
  "inst_container (qr_apply i (Update u)) = inst_container i"
  "inst_container (qr_apply i (Download n ext)) = inst_container i"
  by (simp_all add: Let_def split: option.splits)

lemma qr_apply_shown [simp]:
  "inst_shown (qr_apply i (Append el)) = (inst_qr i \<noteq> None)"
  "inst_shown (qr_apply i (Update u)) = (opt_data u \<noteq> [] \<and> inst_container i \<noteq> None)"
  "inst_shown (qr_apply i (Download n ext)) = inst_shown i"
  by (simp_all add: Let_def split: option.splits)

lemma qr_apply_qr [simp]:
  "inst_qr (qr_apply i (Append el)) = inst_qr i"
  "inst_qr (qr_apply i (Update u)) = (if opt_data u = [] then inst_qr i else Some (opt_data u))"
  "inst_qr (qr_apply i (Download n ext)) = inst_qr i"
  by (simp_all add: Let_def split: option.splits)

lemma qr_apply_saved [simp]:
  "inst_saved (qr_apply i (Append el)) = inst_saved i"
  "inst_saved (qr_apply i (Update u)) = inst_saved i"
  "inst_saved (qr_apply i (Download n ext)) =
     inst_saved i @ (case inst_qr i of None \<Rightarrow> [] | Some d \<Rightarrow> [(n @ ''.'' @ extension_name ext, d)])"
  by (simp_all add: Let_def split: option.splits)

declare qr_apply.simps [simp del]

lemma qr_construct_fields [simp]:
  "inst_options (qr_construct opts) = opts"
  "inst_container (qr_construct opts) = None"
  "inst_qr (qr_construct opts) = (if opt_data opts = [] then None else Some (opt_data opts))"
  "inst_shown (qr_construct opts) = False"
  "inst_saved (qr_construct opts) = []"
  by (simp_all add: qr_construct_def)

lemma qr_apply_all_append: "qr_apply_all i (cs @ ds) = qr_apply_all (qr_apply_all i cs) ds"
  by (simp add: qr_apply_all_def)

lemma inst_qr_apply_all: "inst_qr (qr_apply_all i cs) = sent_data (inst_qr i) cs"
proof (induction cs arbitrary: i)
  case Nil
  then show ?case by (simp add: qr_apply_all_def sent_data_def)
next
  case (Cons c cs)
  have "inst_qr (qr_apply i c) = sent_data (inst_qr i) [c]"
    by (cases c) (simp_all add: sent_data_def)
  with Cons.IH [of "qr_apply i c"] show ?case by (simp add: qr_apply_all_def sent_data_def)
qed

lemma sent_data_nonempty: "acc \<noteq> Some [] \<Longrightarrow> sent_data acc cs \<noteq> Some []"
proof (induction cs arbitrary: acc)
  case Nil
  then show ?case by (simp add: sent_data_def)
next
  case (Cons c cs)
  have "sent_data acc [c] \<noteq> Some []" using Cons.prems by (cases c) (simp_all add: sent_data_def)
  with Cons.IH show ?case by (simp add: sent_data_def)
qed

end
