(* ===== verification/DataUrl.thy ===== *)
theory DataUrl
  imports Prelude
begin

text \<open>
  The browser side of the logo upload: a picked \<open>File\<close> and
  \<open>FileReader.readAsDataURL\<close>, which \<^verbatim>\<open>handleLogoUpload\<close> uses to turn the file into
  the string stored as \<open>logo\<close>. This is host code, not code of the repository; it is
  modelled from the File API and RFC 4648: the result is
  \<^verbatim>\<open>data:<type>;base64,<base64 of the bytes>\<close>. The base64 encoder works on
  \<open>8 word\<close> bytes with the shifts and masks a browser uses. The decoder is what the
  browser runs when the data URL is used as an image source; it is used here to show
  that the stored logo embeds exactly the bytes of the picked file.
\<close>

unbundle bit_operations_syntax

record dom_file =
  file_type :: string
  file_bytes :: "byte list"

subsection \<open>The base64 alphabet\<close>

definition b64_char :: "byte \<Rightarrow> char" where
  "b64_char s =
     (let n = unat s in
      if n < 26 then char_of (n + 65)
      else if n < 52 then char_of (n + 71)
      else if n < 62 then char_of (n - 4)
      else if n = 62 then CHR ''+''
      else CHR ''/'')"

definition b64_value :: "char \<Rightarrow> byte option" where
  "b64_value c =
     (let k = (of_char c :: nat) in
      if 65 \<le> k \<and> k \<le> 90 then Some (word_of_nat (k - 65))
      else if 97 \<le> k \<and> k \<le> 122 then Some (word_of_nat (k - 71))
      else if 48 \<le> k \<and> k \<le> 57 then Some (word_of_nat (k + 4))
      else if c = CHR ''+'' then Some 62
      else if c = CHR ''/'' then Some 63
      else None)"

subsection \<open>Encoding three bytes as four sextets\<close>

definition sextets :: "byte \<Rightarrow> byte \<Rightarrow> byte \<Rightarrow> byte list" where
  "sextets a b c =
     [drop_bit 2 a,
      push_bit 4 (a AND 3) OR drop_bit 4 b,
      push_bit 2 (b AND 15) OR drop_bit 6 c,
      c AND 63]"

definition unsextets :: "byte \<Rightarrow> byte \<Rightarrow> byte \<Rightarrow> byte \<Rightarrow> byte list" where
  "unsextets s0 s1 s2 s3 =
     [push_bit 2 s0 OR drop_bit 4 s1,
      push_bit 4 (s1 AND 15) OR drop_bit 2 s2,
      push_bit 6 (s2 AND 3) OR s3]"

text \<open>
  A full group gives four characters; a last group of two bytes gives three
  characters and one \<open>=\<close>, of one byte two characters and \<open>==\<close>; the missing bytes
  are zero bits.
\<close>

fun base64_encode :: "byte list \<Rightarrow> string" where
  "base64_encode (a # b # c # rest) = map b64_char (sextets a b c) @ base64_encode rest"
| "base64_encode [a, b] = map b64_char (take 3 (sextets a b 0)) @ ''=''"
| "base64_encode [a] = map b64_char (take 2 (sextets a 0 0)) @ ''==''"
| "base64_encode [] = []"

fun base64_decode :: "string \<Rightarrow> byte list option" where
  "base64_decode (c0 # c1 # c2 # c3 # rest) =
     (if rest = [] \<and> c2 = CHR ''='' \<and> c3 = CHR ''='' then
        (case (b64_value c0, b64_value c1) of
           (Some s0, Some s1) \<Rightarrow> Some (take 1 (unsextets s0 s1 0 0))
         | _ \<Rightarrow> None)
      else if rest = [] \<and> c3 = CHR ''='' then
        (case (b64_value c0, b64_value c1, b64_value c2) of
           (Some s0, Some s1, Some s2) \<Rightarrow> Some (take 2 (unsextets s0 s1 s2 0))
         | _ \<Rightarrow> None)
      else
        (case (b64_value c0, b64_value c1, b64_value c2, b64_value c3) of
           (Some s0, Some s1, Some s2, Some s3) \<Rightarrow>
             map_option (\<lambda>bs. unsextets s0 s1 s2 s3 @ bs) (base64_decode rest)
         | _ \<Rightarrow> None))"
| "base64_decode [] = Some []"
| "base64_decode _ = None"

subsection \<open>Data URLs\<close>

text \<open>\<open>readAsDataURL\<close> writes \<^verbatim>\<open>application/octet-stream\<close> for a file of unknown type.\<close>

definition data_url_type :: "string \<Rightarrow> string" where
  "data_url_type t = (if t = [] then ''application/octet-stream'' else t)"

definition read_as_data_url :: "dom_file \<Rightarrow> string" where
  "read_as_data_url f =
     ''data:'' @ data_url_type (file_type f) @ '';base64,'' @ base64_encode (file_bytes f)"

text \<open>Reading a data URL back: the media type up to the first comma, then the body.\<close>

definition parse_data_url :: "string \<Rightarrow> (string \<times> byte list) option" where
  "parse_data_url u =
     (if take 5 u = ''data:'' then
        (let hdr = takeWhile (\<lambda>c. c \<noteq> CHR '','') (drop 5 u);
             body = drop (Suc (length hdr)) (drop 5 u)
         in if length hdr < length (drop 5 u) \<and> 7 \<le> length hdr
               \<and> drop (length hdr - 7) hdr = '';base64''
            then map_option (\<lambda>bs. (take (length hdr - 7) hdr, bs)) (base64_decode body)
            else None)
      else None)"

subsection \<open>Properties\<close>

lemma b64_value_char: "unat s < 64 \<Longrightarrow> b64_value (b64_char s) = Some s"
  unfolding b64_char_def b64_value_def Let_def
  by (auto simp: char_of_eq_iff take_bit_eq_mod word_unat_eq_iff)

lemma b64_char_not_pad: "unat s < 64 \<Longrightarrow> b64_char s \<noteq> CHR ''=''"
  unfolding b64_char_def Let_def
  by (auto simp: char_of_eq_iff take_bit_eq_mod)

lemma sextet0_bound [simp]: "unat (drop_bit 2 (a::byte)) < 64"
  by (rule sextet_bound) (simp add: byte_bits)

lemma sextet1_bound [simp]: "unat (push_bit 4 ((a::byte) AND 3) OR drop_bit 4 b) < 64"
  by (rule sextet_bound) (simp add: byte_bits)

lemma sextet2_bound [simp]: "unat (push_bit 2 ((b::byte) AND 15) OR drop_bit 6 c) < 64"
  by (rule sextet_bound) (simp add: byte_bits)

lemma sextet3_bound [simp]: "unat ((c::byte) AND 63) < 64"
  by (rule sextet_bound) (simp add: byte_bits)

lemma unsextets_sextets:
  "unsextets (drop_bit 2 a) (push_bit 4 (a AND 3) OR drop_bit 4 b)
     (push_bit 2 (b AND 15) OR drop_bit 6 c) (c AND 63) = [a, b, c]"
  by (simp add: unsextets_def byte_bits)

lemma sextets_props:
  assumes "sextets a b c = [s0, s1, s2, s3]"
  shows "unsextets s0 s1 s2 s3 = [a, b, c] \<and> unat s0 < 64 \<and> unat s1 < 64 \<and> unat s2 < 64 \<and> unat s3 < 64"
  using assms unsextets_sextets [of a b c]
    sextet0_bound [of a] sextet1_bound [of a b] sextet2_bound [of b c] sextet3_bound [of c]
  by (simp only: sextets_def list.inject)

lemma sextets_exist: "\<exists>s0 s1 s2 s3. sextets a b c = [s0, s1, s2, s3]"
  by (simp add: sextets_def)

lemma sextets_zero: "sextets a b 0 = [s0, s1, s2, s3] \<Longrightarrow> s3 = 0"
  by (simp add: sextets_def)

lemma sextets_zero2: "sextets a 0 0 = [s0, s1, s2, s3] \<Longrightarrow> s2 = 0 \<and> s3 = 0"
  by (simp add: sextets_def)

lemma base64_encode_Nil_iff [simp]: "base64_encode bs = [] \<longleftrightarrow> bs = []"
  by (induction bs rule: base64_encode.induct) (simp_all add: sextets_def)

lemma base64_decode_encode: "base64_decode (base64_encode bs) = Some bs"
proof (induction bs rule: base64_encode.induct)
  case (1 a b c rest)
  obtain s0 s1 s2 s3 where s: "sextets a b c = [s0, s1, s2, s3]"
    using sextets_exist by blast
  with sextets_props [OF s] "1" show ?case
    by (simp add: b64_value_char b64_char_not_pad)
next
  case (2 a b)
  obtain s0 s1 s2 s3 where s: "sextets a b 0 = [s0, s1, s2, s3]"
    using sextets_exist by blast
  with sextets_props [OF s] sextets_zero [OF s] show ?case
    by (simp add: b64_value_char b64_char_not_pad)
next
  case (3 a)
  obtain s0 s1 s2 s3 where s: "sextets a 0 0 = [s0, s1, s2, s3]"
    using sextets_exist by blast
  with sextets_props [OF s] sextets_zero2 [OF s] show ?case
    by (simp add: b64_value_char b64_char_not_pad unsextets_def)
qed simp

lemma data_url_type_no_comma: "CHR '','' \<notin> set t \<Longrightarrow> CHR '','' \<notin> set (data_url_type t)"
  by (simp add: data_url_type_def)

lemma data_url_type_nonempty: "data_url_type t \<noteq> []"
  by (simp add: data_url_type_def)

lemma parse_read_as_data_url:
  assumes "CHR '','' \<notin> set (file_type f)"
  shows "parse_data_url (read_as_data_url f) = Some (data_url_type (file_type f), file_bytes f)"
proof -
  let ?t = "data_url_type (file_type f)"
  let ?e = "base64_encode (file_bytes f)"
  have nc: "CHR '','' \<notin> set ?t" using assms by (rule data_url_type_no_comma)
  have tw: "takeWhile (\<lambda>c. c \<noteq> CHR '','') (?t @ '';base64,'' @ ?e) = ?t @ '';base64''"
  proof -
    have "takeWhile (\<lambda>c. c \<noteq> CHR '','') (?t @ '';base64,'' @ ?e)
        = ?t @ takeWhile (\<lambda>c. c \<noteq> CHR '','') ('';base64,'' @ ?e)"
      using nc by (intro takeWhile_append2) auto
    then show ?thesis by simp
  qed
  have t5: "take 5 (read_as_data_url f) = ''data:''"
    by (simp add: read_as_data_url_def)
  have d5: "drop 5 (read_as_data_url f) = ?t @ '';base64,'' @ ?e"
    by (simp add: read_as_data_url_def)
  have len: "length (?t @ '';base64'') < length (?t @ '';base64,'' @ ?e)"
    by simp
  have body: "drop (Suc (length (?t @ '';base64''))) (?t @ '';base64,'' @ ?e) = ?e"
    by simp
  have sfx: "drop (length (?t @ '';base64'') - 7) (?t @ '';base64'') = '';base64''"
    by simp
  have pre: "take (length (?t @ '';base64'') - 7) (?t @ '';base64'') = ?t"
    by simp
  show ?thesis
    unfolding parse_data_url_def Let_def t5 d5 tw
    using len body sfx pre by (simp add: base64_decode_encode)
qed

lemma read_as_data_url_nonempty: "read_as_data_url f \<noteq> []"
  by (simp add: read_as_data_url_def)

end
