(* ===== verification/QRGeneratorPro.thy ===== *)
theory QRGeneratorPro
  imports QRCodeStyling DataUrl
begin

text \<open>
  The component \<^verbatim>\<open>src/src/components/QRGeneratorPro.tsx\<close>: its \<open>useState\<close> hooks
  (record \<open>ui_state\<close>), the \<open>QRCodeStyling\<close> instance held in a ref and built from
  \<open>initial_options\<close>, the two effects (\<open>append_effect\<close>, \<open>update_effect\<close>), the
  handlers (\<open>handleLogoUpload\<close>, the \<open>FileReader\<close> callback, \<open>download\<close>) and the JSX
  event wiring, as one step function \<open>dispatch\<close> over a world state. React is
  modelled as it behaves on a discrete event: a state setter whose value equals the
  current one bails out (no render); otherwise the component renders once, commits, and
  runs each passive effect whose dependency list changed, in the order the effects are
  declared. Every call the component makes on the library goes through \<open>call_qr\<close>,
  which applies it to the instance and appends it to the log \<open>calls\<close>.
\<close>

subsection \<open>State\<close>

text \<open>
  The hooks of lines 9--22. The state called \<open>text\<close> in the source is
  \<open>text_value\<close> here (\<open>text\<close> is a keyword of the theory language).
  \<open>logo\<close> is \<open>None\<close> for \<open>null\<close>.
\<close>

record ui_state =
  text_value :: string
  dotStyle :: string
  cornerDotStyle :: string
  cornerSquareStyle :: string
  fgColor :: string
  bgColor :: string
  logo :: "string option"

definition initial_ui :: ui_state where
  "initial_ui =
     \<lparr>text_value = '''', dotStyle = ''square'', cornerDotStyle = ''square'',
      cornerSquareStyle = ''square'', fgColor = ''#000000'', bgColor = ''#ffffff'', logo = None\<rparr>"

text \<open>The options object of the constructor call, lines 26--45.\<close>

definition initial_options :: qr_options where
  "initial_options =
     \<lparr>opt_data = '''', opt_image = None, opt_dots_color = ''#000000'', opt_dots_type = ''square'',
      opt_corners_dot_type = ''square'', opt_corners_square_type = ''square'',
      opt_background_color = ''#ffffff'', opt_width = 300, opt_height = 300, opt_draw = DrawSvg\<rparr>"

text \<open>
  The world: the hook state, the instance kept by \<open>useRef(...).current\<close>, the preview
  ref \<open>qrRef.current\<close>, the number of renders and of \<open>QRCodeStyling\<close> objects
  constructed (the constructor call of line 26 is evaluated on every render, and
  \<open>useRef\<close> keeps only the first result), the log of library calls made on the kept
  instance, and the \<open>FileReader\<close>s in flight with the file each reads.
\<close>

record world =
  ui :: ui_state
  qr :: qr_instance
  qr_ref :: "element option"
  renders :: nat
  instances_created :: nat
  calls :: "qr_call list"
  readers :: "(nat \<times> dom_file) list"
  next_reader :: nat

subsection \<open>The update effect, lines 56--82\<close>

text \<open>JavaScript's \<open>logo || undefined\<close>: \<open>null\<close> and the empty string give \<open>undefined\<close>.\<close>

definition logo_or_undefined :: "string option \<Rightarrow> string option" where
  "logo_or_undefined l = (case l of None \<Rightarrow> None | Some s \<Rightarrow> if s = [] then None else Some s)"

definition update_config :: "ui_state \<Rightarrow> style_options" where
  "update_config s =
     \<lparr>opt_data = text_value s, opt_image = logo_or_undefined (logo s),
      opt_dots_color = fgColor s, opt_dots_type = dotStyle s,
      opt_corners_dot_type = cornerDotStyle s, opt_corners_square_type = cornerSquareStyle s,
      opt_background_color = bgColor s\<rparr>"

text \<open>
  The dependency array of the effect, compared element-wise with \<open>Object.is\<close>, which
  on strings and \<open>null\<close> is equality.
\<close>

datatype dep = DepString string | DepNullable "string option"

definition update_deps :: "ui_state \<Rightarrow> dep list" where
  "update_deps s =
     [DepString (text_value s), DepNullable (logo s), DepString (dotStyle s),
      DepString (cornerDotStyle s), DepString (cornerSquareStyle s),
      DepString (fgColor s), DepString (bgColor s)]"

subsection \<open>Library calls, render and effects\<close>

definition call_qr :: "qr_call \<Rightarrow> world \<Rightarrow> world" where
  "call_qr c w = w\<lparr>qr := qr_apply (qr w) c, calls := calls w @ [c]\<rparr>"

text \<open>Lines 49--53: \<open>if (qrRef.current) qr.append(qrRef.current)\<close>, dependencies \<open>[]\<close>.\<close>

definition append_effect :: "world \<Rightarrow> world" where
  "append_effect w = (case qr_ref w of None \<Rightarrow> w | Some el \<Rightarrow> call_qr (Append el) w)"

definition update_effect :: "world \<Rightarrow> world" where
  "update_effect w = call_qr (Update (update_config (ui w))) w"

text \<open>
  A render with new hook state: the component body runs again, and with it the
  \<open>new QRCodeStyling({...})\<close> of line 26, whose object \<open>useRef\<close> discards.
\<close>

definition render :: "ui_state \<Rightarrow> world \<Rightarrow> world" where
  "render s w = w\<lparr>ui := s, renders := Suc (renders w), instances_created := Suc (instances_created w)\<rparr>"

text \<open>
  A state setter: bail out on an unchanged value; otherwise render, commit, and run the
  update effect when its dependencies changed (the append effect, with \<open>[]\<close>, never
  runs again).
\<close>

definition set_state :: "ui_state \<Rightarrow> world \<Rightarrow> world" where
  "set_state s w =
     (if s = ui w then w
      else let w' = render s w in
           if update_deps (ui w) \<noteq> update_deps s then update_effect w' else w')"

text \<open>
  The mount: the first render constructs the instance, the commit sets
  \<open>qrRef.current\<close> to the preview \<open>div\<close>, then the effects run in declaration order.
\<close>

definition mount :: world where
  "mount =
     update_effect (append_effect
       \<lparr>ui = initial_ui, qr = qr_construct initial_options, qr_ref = Some PreviewDiv,
        renders = 1, instances_created = 1, calls = [], readers = [], next_reader = 0\<rparr>)"

subsection \<open>Handlers\<close>

text \<open>The \<open>onChange\<close> handlers of lines 110, 120, 136, 148--150, 167 and 176.\<close>

definition setText :: "string \<Rightarrow> world \<Rightarrow> world" where
  "setText v w = set_state ((ui w)\<lparr>text_value := v\<rparr>) w"

definition setDotStyle :: "string \<Rightarrow> world \<Rightarrow> world" where
  "setDotStyle v w = set_state ((ui w)\<lparr>dotStyle := v\<rparr>) w"

definition setCornerDotStyle :: "string \<Rightarrow> world \<Rightarrow> world" where
  "setCornerDotStyle v w = set_state ((ui w)\<lparr>cornerDotStyle := v\<rparr>) w"

definition setCornerSquareStyle :: "string \<Rightarrow> world \<Rightarrow> world" where
  "setCornerSquareStyle v w = set_state ((ui w)\<lparr>cornerSquareStyle := v\<rparr>) w"

definition setFgColor :: "string \<Rightarrow> world \<Rightarrow> world" where
  "setFgColor v w = set_state ((ui w)\<lparr>fgColor := v\<rparr>) w"

definition setBgColor :: "string \<Rightarrow> world \<Rightarrow> world" where
  "setBgColor v w = set_state ((ui w)\<lparr>bgColor := v\<rparr>) w"

definition setLogo :: "string \<Rightarrow> world \<Rightarrow> world" where
  "setLogo v w = set_state ((ui w)\<lparr>logo := Some v\<rparr>) w"

text \<open>
  \<open>handleLogoUpload\<close>, lines 85--94: \<open>e.target.files?.[0]\<close>; no file returns early;
  otherwise a new \<open>FileReader\<close> starts \<open>readAsDataURL(file)\<close> and the handler
  returns. The read completes later, as its own event.
\<close>

definition handleLogoUpload :: "dom_file list option \<Rightarrow> world \<Rightarrow> world" where
  "handleLogoUpload files w =
     (case files of
        None \<Rightarrow> w
      | Some [] \<Rightarrow> w
      | Some (f # _) \<Rightarrow>
          w\<lparr>readers := readers w @ [(next_reader w, f)], next_reader := Suc (next_reader w)\<rparr>)"

text \<open>\<open>reader.onload\<close>, lines 90--92: \<open>setLogo(reader.result as string)\<close>.\<close>

definition reader_onload :: "nat \<Rightarrow> world \<Rightarrow> world" where
  "reader_onload r w =
     (case map_of (readers w) r of
        None \<Rightarrow> w
      | Some f \<Rightarrow> setLogo (read_as_data_url f) (w\<lparr>readers := AList.delete r (readers w)\<rparr>))"

text \<open>A failed read: the source sets no \<open>onerror\<close>, so the reader just ends.\<close>

definition reader_onerror :: "nat \<Rightarrow> world \<Rightarrow> world" where
  "reader_onerror r w = w\<lparr>readers := AList.delete r (readers w)\<rparr>"

text \<open>\<open>download\<close>, lines 97--99.\<close>

definition download :: "extension \<Rightarrow> world \<Rightarrow> world" where
  "download format w = call_qr (Download ''qrcode'' format) w"

subsection \<open>Events\<close>

text \<open>
  What the page can deliver: the inputs and selects of lines 106--184, the completion
  or failure of a pending read, and the three download buttons of lines 197--199.
\<close>

datatype ui_event =
    TextInput string
  | DotStyleSelect string
  | CornerDotStyleSelect string
  | CornerSquareStyleSelect string
  | FgColorInput string
  | BgColorInput string
  | LogoFileInput "dom_file list option"
  | ReaderLoad nat
  | ReaderError nat
  | DownloadClick extension

fun dispatch :: "world \<Rightarrow> ui_event \<Rightarrow> world" where
  "dispatch w (TextInput v) = setText v w"
| "dispatch w (DotStyleSelect v) = setDotStyle v w"
| "dispatch w (CornerDotStyleSelect v) = setCornerDotStyle v w"
| "dispatch w (CornerSquareStyleSelect v) = setCornerSquareStyle v w"
| "dispatch w (FgColorInput v) = setFgColor v w"
| "dispatch w (BgColorInput v) = setBgColor v w"
| "dispatch w (LogoFileInput files) = handleLogoUpload files w"
| "dispatch w (ReaderLoad r) = reader_onload r w"
| "dispatch w (ReaderError r) = reader_onerror r w"
| "dispatch w (DownloadClick format) = download format w"

definition run :: "world \<Rightarrow> ui_event list \<Rightarrow> world" where
  "run w es = foldl dispatch w es"

text \<open>The values of the \<open><option>\<close> elements, lines 122--127, 138--139 and 152--153.\<close>

definition dot_style_options :: "string list" where
  "dot_style_options =
     [''square'', ''dots'', ''rounded'', ''classy'', ''classy-rounded'', ''extra-rounded'']"

definition corner_dot_style_options :: "string list" where
  "corner_dot_style_options = [''square'', ''dot'']"

definition corner_square_style_options :: "string list" where
  "corner_square_style_options = [''square'', ''extra-rounded'']"

definition download_buttons :: "extension list" where
  "download_buttons = [Png, Jpeg, Svg]"

text \<open>
  The value of an \<open><input type="color">\<close> is a valid simple colour: \<open>#\<close> and six
  lower-case hexadecimal digits (HTML standard).
\<close>

definition valid_simple_color :: "string \<Rightarrow> bool" where
  "valid_simple_color s \<longleftrightarrow>
     length s = 7 \<and> take 1 s = ''#'' \<and> list_all (\<lambda>c. c \<in> set ''0123456789abcdef'') (drop 1 s)"

text \<open>
  The events the host can deliver in a world: a select yields one of its options, a
  colour input a valid colour, a read completes or fails only while it is in flight,
  and the only downloads are the three buttons.
\<close>

fun event_ok :: "world \<Rightarrow> ui_event \<Rightarrow> bool" where
  "event_ok w (DotStyleSelect v) = (v \<in> set dot_style_options)"
| "event_ok w (CornerDotStyleSelect v) = (v \<in> set corner_dot_style_options)"
| "event_ok w (CornerSquareStyleSelect v) = (v \<in> set corner_square_style_options)"
| "event_ok w (FgColorInput v) = valid_simple_color v"
| "event_ok w (BgColorInput v) = valid_simple_color v"
| "event_ok w (ReaderLoad r) = (map_of (readers w) r \<noteq> None)"
| "event_ok w (ReaderError r) = (map_of (readers w) r \<noteq> None)"
| "event_ok w (DownloadClick format) = (format \<in> set download_buttons)"
| "event_ok w _ = True"

text \<open>The completion or failure of a read, as opposed to an input of the user.\<close>

text \<open>A sequence of events the host can deliver one after the other.\<close>

fun events_ok :: "world \<Rightarrow> ui_event list \<Rightarrow> bool" where
  "events_ok w [] = True"
| "events_ok w (e # es) = (event_ok w e \<and> events_ok (dispatch w e) es)"

inductive reachable :: "world \<Rightarrow> bool" where
  mounted: "reachable mount"
| step: "reachable w \<Longrightarrow> event_ok w e \<Longrightarrow> reachable (dispatch w e)"

subsection \<open>Invariants\<close>

text \<open>
  What every reachable world keeps: the instance's options agree with the hook state
  (\<open>sync_inv\<close>) and keep the constructor's size and draw type (\<open>frame_inv\<close>); the
  preview is attached, by exactly one \<open>append\<close> (\<open>attach_inv\<close>); the styles are
  option values and the colours valid colours (\<open>vocab_inv\<close>, \<open>color_inv\<close>); the
  preview shows a symbol exactly when the text is non-empty (\<open>shown_inv\<close>), and a
  non-empty text is what the instance's QR matrix encodes (\<open>qr_inv\<close>); one
  instance is constructed per render (\<open>render_inv\<close>); pending readers have distinct,
  fresh ids (\<open>reader_inv\<close>); the instance is the replay of the logged calls
  (\<open>replay_inv\<close>).
\<close>

definition sync_inv :: "world \<Rightarrow> bool" where
  "sync_inv w \<longleftrightarrow> style_options.truncate (inst_options (qr w)) = update_config (ui w)"

definition frame_inv :: "world \<Rightarrow> bool" where
  "frame_inv w \<longleftrightarrow> opt_width (inst_options (qr w)) = 300 \<and> opt_height (inst_options (qr w)) = 300
     \<and> opt_draw (inst_options (qr w)) = DrawSvg"

definition attach_inv :: "world \<Rightarrow> bool" where
  "attach_inv w \<longleftrightarrow> qr_ref w = Some PreviewDiv \<and> inst_container (qr w) = Some PreviewDiv
     \<and> filter is_append (calls w) = [Append PreviewDiv]"

definition vocab_inv :: "world \<Rightarrow> bool" where
  "vocab_inv w \<longleftrightarrow> dotStyle (ui w) \<in> set dot_style_options
     \<and> cornerDotStyle (ui w) \<in> set corner_dot_style_options
     \<and> cornerSquareStyle (ui w) \<in> set corner_square_style_options"

definition color_inv :: "world \<Rightarrow> bool" where
  "color_inv w \<longleftrightarrow> valid_simple_color (fgColor (ui w)) \<and> valid_simple_color (bgColor (ui w))"

definition shown_inv :: "world \<Rightarrow> bool" where
  "shown_inv w \<longleftrightarrow> inst_shown (qr w) = (text_value (ui w) \<noteq> [])"

definition qr_inv :: "world \<Rightarrow> bool" where
  "qr_inv w \<longleftrightarrow> text_value (ui w) = [] \<or> inst_qr (qr w) = Some (text_value (ui w))"

definition render_inv :: "world \<Rightarrow> bool" where
  "render_inv w \<longleftrightarrow>
     instances_created w = renders w \<and> renders w = length (filter is_update (calls w))"

definition reader_inv :: "world \<Rightarrow> bool" where
  "reader_inv w \<longleftrightarrow> distinct (map fst (readers w)) \<and> list_all (\<lambda>r. r < next_reader w) (map fst (readers w))"

definition replay_inv :: "world \<Rightarrow> bool" where
  "replay_inv w \<longleftrightarrow> qr w = qr_apply_all (qr_construct initial_options) (calls w)"

section \<open>Properties of the component model\<close>

subsection \<open>Frame equations\<close>

lemma update_deps_eq_iff [simp]: "update_deps s = update_deps s' \<longleftrightarrow> s = s'"
  by (cases s; cases s') (auto simp: update_deps_def)

lemma ui_state_update_eq_self [simp]:
  "s\<lparr>text_value := v\<rparr> = s \<longleftrightarrow> v = text_value s"
  "s = s\<lparr>text_value := v\<rparr> \<longleftrightarrow> v = text_value s"
  "s\<lparr>dotStyle := v\<rparr> = s \<longleftrightarrow> v = dotStyle s"
  "s = s\<lparr>dotStyle := v\<rparr> \<longleftrightarrow> v = dotStyle s"
  "s\<lparr>cornerDotStyle := v\<rparr> = s \<longleftrightarrow> v = cornerDotStyle s"
  "s = s\<lparr>cornerDotStyle := v\<rparr> \<longleftrightarrow> v = cornerDotStyle s"
  "s\<lparr>cornerSquareStyle := v\<rparr> = s \<longleftrightarrow> v = cornerSquareStyle s"
  "s = s\<lparr>cornerSquareStyle := v\<rparr> \<longleftrightarrow> v = cornerSquareStyle s"
  "s\<lparr>fgColor := v\<rparr> = s \<longleftrightarrow> v = fgColor s"
  "s = s\<lparr>fgColor := v\<rparr> \<longleftrightarrow> v = fgColor s"
  "s\<lparr>bgColor := v\<rparr> = s \<longleftrightarrow> v = bgColor s"
  "s = s\<lparr>bgColor := v\<rparr> \<longleftrightarrow> v = bgColor s"
  "s\<lparr>logo := l\<rparr> = s \<longleftrightarrow> l = logo s"
  "s = s\<lparr>logo := l\<rparr> \<longleftrightarrow> l = logo s"
  by (cases s; auto)+

lemma ui_state_eq_iff:
  "(s = (t :: ui_state)) \<longleftrightarrow> text_value s = text_value t \<and> dotStyle s = dotStyle t
     \<and> cornerDotStyle s = cornerDotStyle t \<and> cornerSquareStyle s = cornerSquareStyle t
     \<and> fgColor s = fgColor t \<and> bgColor s = bgColor t \<and> logo s = logo t"
  by (cases s; cases t) simp

lemma call_qr_simps [simp, world_simps]:
  "ui (call_qr c w) = ui w" "qr (call_qr c w) = qr_apply (qr w) c" "calls (call_qr c w) = calls w @ [c]"
  "qr_ref (call_qr c w) = qr_ref w" "renders (call_qr c w) = renders w"
  "instances_created (call_qr c w) = instances_created w" "readers (call_qr c w) = readers w"
  "next_reader (call_qr c w) = next_reader w"
  by (simp_all add: call_qr_def)

lemma render_simps [simp, world_simps]:
  "ui (render s w) = s" "qr (render s w) = qr w" "calls (render s w) = calls w"
  "qr_ref (render s w) = qr_ref w" "renders (render s w) = Suc (renders w)"
  "instances_created (render s w) = Suc (instances_created w)" "readers (render s w) = readers w"
  "next_reader (render s w) = next_reader w"
  by (simp_all add: render_def)

text \<open>
  A setter either bails out or renders once and sends exactly one update with the
  options of the new state: every hook is a dependency of the update effect.
\<close>

lemma set_state_eq:
  "set_state s w = (if s = ui w then w else call_qr (Update (update_config s)) (render s w))"
  by (simp add: set_state_def update_effect_def)

lemma ui_set_state [simp]: "ui (set_state s w) = s"
  by (simp add: set_state_def update_effect_def Let_def)

lemma readers_set_state [simp]:
  "readers (set_state s w) = readers w" "next_reader (set_state s w) = next_reader w"
  by (simp_all add: set_state_def update_effect_def Let_def)

subsection \<open>Preservation of the invariants\<close>

lemma sync_inv_mount: "sync_inv mount"
  by (simp add: sync_inv_def mount_def update_effect_def append_effect_def)

lemmas handler_defs = setText_def setDotStyle_def setCornerDotStyle_def setCornerSquareStyle_def
  setFgColor_def setBgColor_def setLogo_def handleLogoUpload_def reader_onload_def reader_onerror_def download_def

lemmas step_defs = handler_defs set_state_eq Let_def

lemma sync_inv_dispatch: "sync_inv w \<Longrightarrow> sync_inv (dispatch w e)"
  by (cases e) (auto simp: step_defs sync_inv_def split: option.splits list.splits)

lemma frame_inv_dispatch: "frame_inv w \<Longrightarrow> frame_inv (dispatch w e)"
  by (cases e) (auto simp: step_defs frame_inv_def split: option.splits list.splits)

lemma attach_inv_dispatch: "attach_inv w \<Longrightarrow> attach_inv (dispatch w e)"
  by (cases e) (auto simp: step_defs attach_inv_def split: option.splits list.splits)

lemma vocab_inv_dispatch: "vocab_inv w \<Longrightarrow> event_ok w e \<Longrightarrow> vocab_inv (dispatch w e)"
  by (cases e) (auto simp: step_defs vocab_inv_def split: option.splits list.splits)

lemma color_inv_dispatch: "color_inv w \<Longrightarrow> event_ok w e \<Longrightarrow> color_inv (dispatch w e)"
  by (cases e) (auto simp: step_defs color_inv_def split: option.splits list.splits)

lemma shown_inv_dispatch: "shown_inv w \<Longrightarrow> attach_inv w \<Longrightarrow> shown_inv (dispatch w e)"
  by (cases e) (auto simp: step_defs shown_inv_def attach_inv_def update_config_def split: option.splits list.splits)

lemma qr_inv_dispatch: "qr_inv w \<Longrightarrow> qr_inv (dispatch w e)"
  by (cases e) (auto simp: step_defs qr_inv_def update_config_def split: option.splits list.splits)

lemma render_inv_dispatch: "render_inv w \<Longrightarrow> render_inv (dispatch w e)"
  by (cases e) (auto simp: step_defs render_inv_def split: option.splits list.splits)

lemma replay_inv_dispatch: "replay_inv w \<Longrightarrow> replay_inv (dispatch w e)"
  by (cases e) (auto simp: step_defs replay_inv_def qr_apply_all_def split: option.splits list.splits)

lemma reader_inv_dispatch: "reader_inv w \<Longrightarrow> reader_inv (dispatch w e)"
  by (cases e) (auto simp: step_defs reader_inv_def list_all_iff AList.delete_eq distinct_map_filter split: option.splits list.splits)

lemma invs_mount: "frame_inv mount \<and> attach_inv mount \<and> vocab_inv mount \<and> color_inv mount \<and> shown_inv mount \<and> qr_inv mount
   \<and> render_inv mount \<and> reader_inv mount \<and> replay_inv mount"
  by (simp add: mount_def update_effect_def append_effect_def initial_ui_def initial_options_def
     frame_inv_def attach_inv_def vocab_inv_def color_inv_def shown_inv_def qr_inv_def render_inv_def reader_inv_def
     replay_inv_def update_config_def dot_style_options_def corner_dot_style_options_def
     corner_square_style_options_def valid_simple_color_def qr_apply_all_def)

lemma reachable_run: "reachable w \<Longrightarrow> events_ok w es \<Longrightarrow> reachable (run w es)"
proof (induction es arbitrary: w)
  case Nil
  then show ?case by (simp add: run_def)
next
  case (Cons e es)
  then have "reachable (dispatch w e)" by (auto intro: reachable.step)
  with Cons show ?case by (simp add: run_def)
qed

text \<open>Every event only appends to the call log and to the saved files.\<close>

lemma reachable_invs:
  assumes "reachable w"
  shows "sync_inv w \<and> frame_inv w \<and> attach_inv w \<and> vocab_inv w \<and> color_inv w \<and> shown_inv w
    \<and> qr_inv w \<and> render_inv w \<and> reader_inv w \<and> replay_inv w"
  using assms
proof (induction rule: reachable.induct)
  case mounted
  show ?case using invs_mount sync_inv_mount by simp
next
  case (step w e)
  then show ?case
    by (simp add: sync_inv_dispatch frame_inv_dispatch attach_inv_dispatch vocab_inv_dispatch
        color_inv_dispatch shown_inv_dispatch qr_inv_dispatch render_inv_dispatch reader_inv_dispatch
        replay_inv_dispatch)
qed

subsection \<open>The logo upload\<close>

lemma handleLogoUpload_pick:
  "readers (handleLogoUpload (Some (f # fs)) w) = readers w @ [(next_reader w, f)]
   \<and> next_reader (handleLogoUpload (Some (f # fs)) w) = Suc (next_reader w)
   \<and> ui (handleLogoUpload (Some (f # fs)) w) = ui w"
  by (simp add: handleLogoUpload_def)

lemma reader_onload_found:
  assumes "map_of (readers w) r = Some f"
  shows "logo (ui (reader_onload r w)) = Some (read_as_data_url f)
    \<and> readers (reader_onload r w) = AList.delete r (readers w)
    \<and> next_reader (reader_onload r w) = next_reader w"
  using assms by (simp add: reader_onload_def setLogo_def set_state_eq)

lemma fresh_reader: "reader_inv w \<Longrightarrow> next_reader w \<notin> fst ` set (readers w)"
  by (auto simp: reader_inv_def list_all_iff)

lemma image_of_logo:
  "logo s = Some (read_as_data_url f) \<Longrightarrow> opt_image (update_config s) = Some (read_as_data_url f)"
  by (simp add: update_config_def logo_or_undefined_def read_as_data_url_nonempty)

text \<open>A read completion or failure removes its reader; a step renders at most once.\<close>

lemma dispatch_renders: "renders (dispatch w e) \<le> Suc (renders w) \<and> instances_created (dispatch w e) \<le> Suc (instances_created w)"
  by (cases e) (auto simp: step_defs split: option.splits list.splits)

end
