(* ===== verification/OptionsObject.thy ===== *)
theory OptionsObject
  imports QRGeneratorPro
begin

text \<open>
  The options objects as JavaScript values. The component passes object literals to
  \<open>new QRCodeStyling\<close> (\<^verbatim>\<open>QRGeneratorPro.tsx\<close>, lines 26--45) and to
  \<open>qr.update\<close> (lines 57--73); the library merges each into its options with
  \<open>mergeDeep\<close> (qr-code-styling, \<^verbatim>\<open>tools/merge.ts\<close>). This theory writes the two
  literals as the source has them, key by key and nested, models \<open>mergeDeep\<close> on
  them, and reads the result back into the flat records of \<open>QRCodeStyling\<close>. Its
  lemmas show that the flat \<open>update_config\<close>, \<open>initial_options\<close> and
  \<open>merge_options\<close> used by the rest of the development are what the nested code
  computes.
\<close>

text \<open>
  A value of the options objects: a string, a number, \<open>undefined\<close>, or an object as
  the list of its properties in insertion order. Arrays do not occur in these options.
\<close>

datatype json = JStr string | JNum nat | JUndef | is_obj: JObj "(string \<times> json) list"

text \<open>
  \<open>mergeDeep(target, source)\<close> with one source: unless both are objects the target
  is returned; otherwise a copy of the target gets each key of the source in turn
  (\<open>Object.keys(source).forEach\<close>, here \<open>merge_keys\<close>). A key whose old and new
  values are both objects gets their deep merge, any other key the source value
  (\<open>merge_value\<close>). Assigning a key keeps its position, a new key goes last, as
  \<open>AList.update\<close> does.
\<close>

fun merge_deep :: "json \<Rightarrow> json \<Rightarrow> json"
  and merge_keys :: "(string \<times> json) list \<Rightarrow> (string \<times> json) list \<Rightarrow> (string \<times> json) list"
  and merge_value :: "json option \<Rightarrow> json \<Rightarrow> json" where
  "merge_deep (JObj t) (JObj s) = JObj (merge_keys t s)"
| "merge_deep t s = t"
| "merge_keys t [] = t"
| "merge_keys t ((k, v) # rest) = merge_keys (AList.update k (merge_value (map_of t k) v) t) rest"
| "merge_value (Some (JObj tv)) (JObj sv) = merge_deep (JObj tv) (JObj sv)"
| "merge_value tv v = v"

text \<open>
  The two literals of the component. \<open>logo || undefined\<close> is
  \<open>logo_or_undefined\<close>, as a JavaScript value.
\<close>

definition js_or_undefined :: "string option \<Rightarrow> json" where
  "js_or_undefined v = (case v of None \<Rightarrow> JUndef | Some x \<Rightarrow> JStr x)"

definition initial_options_obj :: json where
  "initial_options_obj =
     JObj [(''width'', JNum 300), (''height'', JNum 300), (''type'', JStr ''svg''),
       (''data'', JStr ''''), (''image'', JUndef),
       (''dotsOptions'', JObj [(''color'', JStr ''#000000''), (''type'', JStr ''square'')]),
       (''cornersDotOptions'', JObj [(''type'', JStr ''square'')]),
       (''cornersSquareOptions'', JObj [(''type'', JStr ''square'')]),
       (''backgroundOptions'', JObj [(''color'', JStr ''#ffffff'')])]"

definition update_config_obj :: "ui_state \<Rightarrow> json" where
  "update_config_obj s =
     JObj [(''data'', JStr (text_value s)),
       (''image'', js_or_undefined (logo_or_undefined (logo s))),
       (''dotsOptions'', JObj [(''color'', JStr (fgColor s)), (''type'', JStr (dotStyle s))]),
       (''cornersDotOptions'', JObj [(''type'', JStr (cornerDotStyle s))]),
       (''cornersSquareOptions'', JObj [(''type'', JStr (cornerSquareStyle s))]),
       (''backgroundOptions'', JObj [(''color'', JStr (bgColor s))])]"

text \<open>
  Reading an options object back: the value at a path of keys, and the seven style
  keys and three frame keys as the records of \<open>QRCodeStyling\<close> hold them.
  \<open>options_rel j opts\<close> says the object \<open>j\<close> has the values of \<open>opts\<close>.
\<close>

text \<open>
  The object an \<open>update\<close> call carries, built from the flat options of the call, and
  the options object the library holds after a sequence of calls: each update's object
  is deep-merged into it, the other calls leave it alone.
\<close>

definition style_obj :: "style_options \<Rightarrow> json" where
  "style_obj u =
     JObj [(''data'', JStr (opt_data u)), (''image'', js_or_undefined (opt_image u)),
       (''dotsOptions'', JObj [(''color'', JStr (opt_dots_color u)), (''type'', JStr (opt_dots_type u))]),
       (''cornersDotOptions'', JObj [(''type'', JStr (opt_corners_dot_type u))]),
       (''cornersSquareOptions'', JObj [(''type'', JStr (opt_corners_square_type u))]),
       (''backgroundOptions'', JObj [(''color'', JStr (opt_background_color u))])]"

definition lib_options :: "json \<Rightarrow> qr_call list \<Rightarrow> json" where
  "lib_options j cs = foldl (\<lambda>j c. case c of Update u \<Rightarrow> merge_deep j (style_obj u) | _ \<Rightarrow> j) j cs"

fun json_get :: "string list \<Rightarrow> json \<Rightarrow> json option" where
  "json_get [] j = Some j"
| "json_get (k # p) (JObj kvs) = (case map_of kvs k of None \<Rightarrow> None | Some j \<Rightarrow> json_get p j)"
| "json_get (k # p) j = None"

fun json_string :: "json option \<Rightarrow> string" where
  "json_string (Some (JStr s)) = s"
| "json_string j = []"

fun json_image :: "json option \<Rightarrow> string option" where
  "json_image (Some (JStr s)) = Some s"
| "json_image j = None"

definition style_of :: "json \<Rightarrow> style_options" where
  "style_of j =
     \<lparr>opt_data = json_string (json_get [''data''] j),
      opt_image = json_image (json_get [''image''] j),
      opt_dots_color = json_string (json_get [''dotsOptions'', ''color''] j),
      opt_dots_type = json_string (json_get [''dotsOptions'', ''type''] j),
      opt_corners_dot_type = json_string (json_get [''cornersDotOptions'', ''type''] j),
      opt_corners_square_type = json_string (json_get [''cornersSquareOptions'', ''type''] j),
      opt_background_color = json_string (json_get [''backgroundOptions'', ''color''] j)\<rparr>"

fun draw_type_name :: "draw_type \<Rightarrow> string" where
  "draw_type_name DrawSvg = ''svg''"
| "draw_type_name DrawCanvas = ''canvas''"

definition options_rel :: "json \<Rightarrow> qr_options \<Rightarrow> bool" where
  "options_rel j opts \<longleftrightarrow> is_obj j \<and> style_of j = style_options.truncate opts
     \<and> json_get [''width''] j = Some (JNum (opt_width opts))
     \<and> json_get [''height''] j = Some (JNum (opt_height opts))
     \<and> json_get [''type''] j = Some (JStr (draw_type_name (opt_draw opts)))"

subsection \<open>Properties of the deep merge\<close>

lemma map_of_merge_keys:
  "distinct (map fst s) \<Longrightarrow> map_of (merge_keys t s) k =
     (case map_of s k of None \<Rightarrow> map_of t k | Some v \<Rightarrow> Some (merge_value (map_of t k) v))"
proof (induction s arbitrary: t)
  case Nil
  then show ?case by simp
next
  case (Cons kv s)
  obtain k' v where kv: "kv = (k', v)" by (cases kv)
  with Cons.prems have d: "distinct (map fst s)" and n: "map_of s k' = None"
    by (auto simp: map_of_eq_None_iff)
  show ?case
  proof (cases "k = k'")
    case True
    with kv n Cons.IH [OF d] show ?thesis by (simp add: update_conv')
  next
    case False
    with kv Cons.IH [OF d] show ?thesis by (simp add: update_conv' split: option.splits)
  qed
qed

declare merge_keys.simps [simp del]

lemma json_get_merge_value_obj:
  "distinct (map fst sv) \<Longrightarrow> json_get (k # p) (merge_value tv (JObj sv)) =
     (case map_of sv k of
        None \<Rightarrow> json_get (k # p) (case tv of Some (JObj t) \<Rightarrow> JObj t | _ \<Rightarrow> JUndef)
      | Some v \<Rightarrow> json_get p (merge_value (case tv of Some (JObj t) \<Rightarrow> map_of t k | _ \<Rightarrow> None) v))"
  by (cases tv; cases "the tv") (simp_all add: map_of_merge_keys split: option.splits)

lemmas json_get_merge = map_of_merge_keys json_get_merge_value_obj

subsection \<open>The component's objects\<close>

lemma json_image_js [simp]: "json_image (Some (js_or_undefined v)) = v"
  by (cases v) (simp_all add: js_or_undefined_def)

lemma merge_value_js [simp]: "merge_value tv (js_or_undefined v) = js_or_undefined v"
  by (cases v) (simp_all add: js_or_undefined_def)

text \<open>The update literal is the object of its flat options.\<close>

lemma update_config_obj_style: "update_config_obj s = style_obj (update_config s)"
  by (simp add: update_config_obj_def style_obj_def update_config_def)

lemma style_of_style_obj [simp]: "style_of (merge_deep (JObj t) (style_obj u)) = u"
  by (cases u) (simp add: style_of_def style_obj_def json_get_merge)

lemma is_obj_style_obj [simp]: "is_obj (merge_deep (JObj t) (style_obj u))"
  by (simp add: style_obj_def)

lemma frame_style_obj [simp]:
  "json_get [''width''] (merge_deep (JObj t) (style_obj u)) = json_get [''width''] (JObj t)"
  "json_get [''height''] (merge_deep (JObj t) (style_obj u)) = json_get [''height''] (JObj t)"
  "json_get [''type''] (merge_deep (JObj t) (style_obj u)) = json_get [''type''] (JObj t)"
  by (simp_all add: style_obj_def json_get_merge)

text \<open>One update, the constructor, and a sequence of calls, against the flat model.\<close>

lemma merge_style_refines:
  assumes "options_rel j opts"
  shows "options_rel (merge_deep j (style_obj u)) (merge_options opts u)"
proof -
  obtain t where j: "j = JObj t" using assms by (cases j) (simp_all add: options_rel_def)
  show ?thesis using assms unfolding j options_rel_def by simp
qed

lemma constructor_rel: "options_rel (merge_deep (JObj d) initial_options_obj) initial_options"
  by (simp add: options_rel_def style_of_def initial_options_obj_def initial_options_def
      json_get_merge style_options.truncate_def)

lemma lib_options_rel:
  "options_rel j (inst_options i) \<Longrightarrow> options_rel (lib_options j cs) (inst_options (qr_apply_all i cs))"
proof (induction cs arbitrary: j i)
  case Nil
  then show ?case by (simp add: lib_options_def qr_apply_all_def)
next
  case (Cons c cs)
  have "options_rel (lib_options j [c]) (inst_options (qr_apply i c))"
    using Cons.prems by (cases c) (simp_all add: lib_options_def merge_style_refines)
  with Cons.IH show ?case by (simp add: lib_options_def qr_apply_all_def)
qed

end
