(* ===== verification/Spec2Isabelle.thy ===== *)
theory Spec2Isabelle
  imports OptionsObject
begin

text \<open>
  \<^bold>\<open>A verification model of qr-code-pro.\<close>

  \<^emph>\<open>The program.\<close> The repository is one React component,
  \<^verbatim>\<open>src/src/components/QRGeneratorPro.tsx\<close>. It keeps seven pieces of state in
  \<open>useState\<close> hooks (the text, three style selections, two colours, an optional logo).
  It holds one \<open>QRCodeStyling\<close> object of the external library
  \<^verbatim>\<open>qr-code-styling\<close> in a ref and attaches it once, at mount, to a 300x300 preview
  \<open>div\<close>. An effect pushes the full options object into that instance whenever a
  piece of state changes. \<open>handleLogoUpload\<close> reads a picked file with a
  \<open>FileReader\<close> into a data URL and stores it as the logo. \<open>download\<close> asks the
  instance to save \<^verbatim>\<open>qrcode.<format>\<close>. The parts interact only through the
  library calls append, update and download, and through the asynchronous
  completion of file reads.

  \<^emph>\<open>The theories.\<close>
  \<^item> \<open>Prelude\<close>: bytes as \<open>8 word\<close>, the preview element, the collection
    \<open>world_simps\<close>, bit-level lemmas on bytes and lemmas on association lists.
  \<^item> \<open>DataUrl\<close>: the browser's \<open>File\<close> (\<open>dom_file\<close>) and
    \<open>readAsDataURL\<close> (\<open>read_as_data_url\<close>), with a base64 encoder on bytes
    (\<open>base64_encode\<close>, shifts and masks on \<open>8 word\<close>), its decoder and a data-URL
    reader (\<open>parse_data_url\<close>). Host code, modelled from the File API and RFC 4648.
  \<^item> \<open>QRCodeStyling\<close>: the library as the component uses it: its options
    (\<open>style_options\<close>, extended to \<open>qr_options\<close> by size and draw type), the
    instance (\<open>qr_instance\<close>), the calls of the interface datatype \<open>qr_call\<close>
    (\<open>Append\<close>, \<open>Update\<close>, \<open>Download\<close>), and \<open>qr_apply\<close>, the library's answer to
    one call (deep merge of the options, clear-and-redraw, an early return that draws
    nothing and keeps the previous QR matrix while \<open>data\<close> is empty, a download that
    rejects without a matrix and otherwise saves \<open>name.extension\<close> with the matrix it
    has). External code, modelled from its documentation.
  \<^item> \<open>QRGeneratorPro\<close>: the component. \<open>ui_state\<close> is the hooks (lines 9--22),
    \<open>initial_options\<close> the constructor options (lines 26--45), \<open>append_effect\<close> and
    \<open>update_effect\<close> the two effects (lines 49--82, with \<open>update_config\<close> the
    options object and \<open>update_deps\<close> the dependency array), \<open>handleLogoUpload\<close>,
    \<open>reader_onload\<close>, \<open>reader_onerror\<close> and \<open>download\<close> the handlers
    (lines 85--99), the \<open>set*\<close> definitions the \<open>onChange\<close> wiring of the JSX, and
    \<open>dispatch\<close> one event of the page (\<open>ui_event\<close>). The world record adds what
    React and the browser keep: the instance, the preview ref, render and
    construction counts, the log \<open>calls\<close> of library calls, and the pending
    readers. \<open>mount\<close> is the first render with its effects. \<open>reachable\<close> is
    every world reached from \<open>mount\<close> by events the host can deliver
    (\<open>event_ok\<close>: select values are option values, colour inputs give valid
    colours, reads complete only while pending, the downloads are the three
    buttons).
  \<^item> \<open>OptionsObject\<close>: the two options object literals of the component as
    JavaScript values (\<open>json\<close>): \<open>initial_options_obj\<close> (lines 26--45) and
    \<open>update_config_obj\<close> (lines 57--73), and the library's \<open>mergeDeep\<close>
    (\<open>merge_deep\<close>, with its key loop \<open>merge_keys\<close> and per-key branch
    \<open>merge_value\<close>; total by structural recursion on the source object).
    \<open>options_rel\<close> reads an object back into the flat \<open>qr_options\<close>; it is the
    bridge that justifies the flat \<open>merge_options\<close> of \<open>QRCodeStyling\<close>.
    \<open>lib_options\<close> is the library's \<open>_options\<close> after a sequence of calls.

  \<^emph>\<open>React.\<close> A setter called with the current value bails out (no render). Otherwise
  the component renders once; every render evaluates the constructor call of line 26,
  and the effects whose dependencies changed run after the commit, in declaration
  order. Reads complete as separate events, in any order the browser chooses.
  \<open>set_state\<close> and \<open>mount\<close> encode this. Two simplifications: React may call the
  component once before bailing out on an unchanged value (constructing one more
  discarded library object, which \<open>render\<close> does not count), and an event is one
  atomic step, without React's batching of a read completion with other input.

  \<^emph>\<open>The abstract form.\<close> This theory also states what the component promises
  as a small machine, \<open>form_step\<close> on \<open>form_state\<close>: the options object the inputs
  describe, the reads in flight with the data URL each will deliver, and the next
  reader number; \<open>edit_key\<close> is the key of the options each input edits.
  \<open>form_of\<close> abstracts a world to it, and \<open>form_of_dispatch\<close> is the
  simulation step, under the invariant that the instance follows the state.

  \<^emph>\<open>What is proved.\<close> The invariants of \<open>QRGeneratorPro\<close> hold in every
  reachable world (\<open>reachable_invs\<close>, by rule induction). This theory derives the
  properties of the program from them:
  \<^item> refinement: the instance's options are always the options object of the current
    state; every deliverable run of the component is a run of the abstract form
    machine on the same events; the instance is the replay of the calls made on it;
  \<^item> safety: the preview is attached by exactly one \<open>append\<close>; the logo, once set,
    is never cleared; the size and draw type never change;
  \<^item> functional behaviour of each handler: an edit sends one update that changes
    exactly its own key, an unchanged value sends nothing, a download calls the
    library once and saves \<^verbatim>\<open>qrcode.<ext>\<close> holding the current text when there is
    text, no file and a failed read change nothing;
  \<^item> an error path: with empty text the preview is blank, yet a download saves the QR
    code of the last non-empty text sent to the library, or nothing if none was sent;
  \<^item> types: style values and colours stay in the library's vocabulary;
  \<^item> liveness and ordering: an upload whose read completes sets the logo and the
    image, also when edits happen while the read is in flight; two uploads whose reads
    complete in reverse order leave the first file; two edits of different keys commute;
  \<^item> round trip: the image passed to the library parses back to the picked file's type
    and bytes;
  \<^item> bounds: a run renders, and constructs library objects, at most once per event;
  \<^item> a divergence: one library object is constructed per render, not once.

  \<^emph>\<open>The options objects.\<close> The lemmas of \<open>OptionsObject\<close>
  (\<open>merge_style_refines\<close>, \<open>constructor_rel\<close>, \<open>lib_options_rel\<close>) show that the
  flat \<open>initial_options\<close> and \<open>merge_options\<close> the properties are stated over agree
  with \<open>mergeDeep\<close> applied to the object literals of the source. They justify the flat
  model; no property rests on them alone.

  \<^emph>\<open>Bounds and fuel.\<close> Every function is total by structural recursion
  (\<open>base64_encode\<close> and \<open>base64_decode\<close> consume a group of at most four items
  per call; \<open>merge_keys\<close> and \<open>merge_value\<close> recurse into the properties of
  the source object). No fuel is needed: the component has no loops, and an event
  is one bounded step.

  \<^emph>\<open>Not modelled.\<close> The JSX layout and styling (presentation only), QR encoding,
  error correction and drawing inside the library, the library's default options and
  \<open>sanitizeOptions\<close> (the refinement lemmas hold for any defaults), arrays in
  \<open>mergeDeep\<close> (the component's options have none), image decoding, the browser's
  download mechanism beyond the saved file name, React's StrictMode double effects
  and unmounting. The repository has no entry point that enables StrictMode, and the
  component has no cleanup: its effects return nothing and reads are never cancelled, so
  an unmount would only make later setters no-ops, for behaviour no code of the
  repository triggers. The QR code's capacity is not modelled either: the library's
  encoder throws for text longer than the largest QR version holds, and the update
  effect does not catch it (a finding of the manifest, with no theorem).
\<close>

section \<open>Abstract specification: the form\<close>

text \<open>
  The key of the library options each input edits: the text input edits \<open>data\<close>, the
  three selects the three style types, the colour inputs the dot and background colours.
\<close>

definition edit_key :: "ui_event \<Rightarrow> style_options \<Rightarrow> style_options option" where
  "edit_key e u =
     (case e of
        TextInput v \<Rightarrow> Some (u\<lparr>opt_data := v\<rparr>)
      | DotStyleSelect v \<Rightarrow> Some (u\<lparr>opt_dots_type := v\<rparr>)
      | CornerDotStyleSelect v \<Rightarrow> Some (u\<lparr>opt_corners_dot_type := v\<rparr>)
      | CornerSquareStyleSelect v \<Rightarrow> Some (u\<lparr>opt_corners_square_type := v\<rparr>)
      | FgColorInput v \<Rightarrow> Some (u\<lparr>opt_dots_color := v\<rparr>)
      | BgColorInput v \<Rightarrow> Some (u\<lparr>opt_background_color := v\<rparr>)
      | _ \<Rightarrow> None)"

text \<open>The name of the library option each input edits, for telling edits of different keys apart.\<close>

definition edit_field :: "ui_event \<Rightarrow> string option" where
  "edit_field e =
     (case e of
        TextInput _ \<Rightarrow> Some ''data''
      | DotStyleSelect _ \<Rightarrow> Some ''dotsOptions.type''
      | CornerDotStyleSelect _ \<Rightarrow> Some ''cornersDotOptions.type''
      | CornerSquareStyleSelect _ \<Rightarrow> Some ''cornersSquareOptions.type''
      | FgColorInput _ \<Rightarrow> Some ''dotsOptions.color''
      | BgColorInput _ \<Rightarrow> Some ''backgroundOptions.color''
      | _ \<Rightarrow> None)"

text \<open>
  The form as the user sees it, as an abstract machine: the options object the inputs
  describe, the reads in flight with the data URL each will deliver, and the next
  reader number. An edit changes its key (\<open>edit_key\<close>), a picked file starts a
  read, a completed read sets the image, a failed one is dropped. Renders, effects,
  the library instance and its calls do not appear.
\<close>

record form_state =
  form_options :: style_options
  form_pending :: "(nat \<times> string) list"
  form_next :: nat

fun form_step :: "form_state \<Rightarrow> ui_event \<Rightarrow> form_state" where
  "form_step s (LogoFileInput (Some (f # fs))) =
     s\<lparr>form_pending := form_pending s @ [(form_next s, read_as_data_url f)], form_next := Suc (form_next s)\<rparr>"
| "form_step s (ReaderLoad r) =
     (case map_of (form_pending s) r of
        None \<Rightarrow> s
      | Some url \<Rightarrow> s\<lparr>form_options := (form_options s)\<lparr>opt_image := Some url\<rparr>,
                       form_pending := AList.delete r (form_pending s)\<rparr>)"
| "form_step s (ReaderError r) = s\<lparr>form_pending := AList.delete r (form_pending s)\<rparr>"
| "form_step s e = (case edit_key e (form_options s) of None \<Rightarrow> s | Some u \<Rightarrow> s\<lparr>form_options := u\<rparr>)"

definition form_init :: form_state where
  "form_init = \<lparr>form_options = update_config initial_ui, form_pending = [], form_next = 0\<rparr>"

definition form_of :: "world \<Rightarrow> form_state" where
  "form_of w =
     \<lparr>form_options = style_options.truncate (inst_options (qr w)),
      form_pending = map (\<lambda>(r, f). (r, read_as_data_url f)) (readers w),
      form_next = next_reader w\<rparr>"

text \<open>A sample session used by the witnesses: a URL typed, a dot style picked, a PNG picked.\<close>

definition demo_file :: dom_file where
  "demo_file = \<lparr>file_type = ''image/png'', file_bytes = [137, 80, 78, 71]\<rparr>"

definition demo_events :: "ui_event list" where
  "demo_events =
     [TextInput ''https://example.org'', DotStyleSelect ''dots'', LogoFileInput (Some [demo_file])]"

lemma demo_reachable: "reachable (run mount demo_events)"
  by (rule reachable_run [OF reachable.mounted])
     (simp add: demo_events_def dot_style_options_def)

lemma demo_pending: "map_of (readers (run mount demo_events)) 0 = Some demo_file"
  by (simp add: demo_events_def run_def handleLogoUpload_def setText_def setDotStyle_def
      set_state_eq mount_def update_effect_def append_effect_def)

lemma demo_text: "text_value (ui (run mount demo_events)) = ''https://example.org''"
  by (simp add: demo_events_def run_def handleLogoUpload_def setText_def setDotStyle_def
      set_state_eq mount_def update_effect_def append_effect_def)

text \<open>The component state seen as the abstract form, and one event in both.\<close>

lemma map_of_map_data_url:
  "map_of (map (\<lambda>(r, f). (r, g f)) xs) k = map_option g (map_of xs k)"
  by (induction xs) auto

lemma delete_map_data_url:
  "AList.delete k (map (\<lambda>(r, f). (r, g f)) xs) = map (\<lambda>(r, f). (r, g f)) (AList.delete k xs)"
  by (induction xs) auto

lemma form_of_dispatch:
  assumes "sync_inv w"
  shows "form_of (dispatch w e) = form_step (form_of w) e"
  using assms
  by (cases e) (auto simp: form_of_def step_defs sync_inv_def edit_key_def update_config_def
      logo_or_undefined_def read_as_data_url_nonempty map_of_map_data_url delete_map_data_url
      split: option.splits list.splits)

lemma form_of_run:
  "reachable w \<Longrightarrow> events_ok w es \<Longrightarrow> form_of (run w es) = foldl form_step (form_of w) es"
proof (induction es arbitrary: w)
  case Nil
  then show ?case by (simp add: run_def)
next
  case (Cons e es)
  have r: "reachable (dispatch w e)" using Cons.prems by (auto intro: reachable.step)
  have "form_of (dispatch w e) = form_step (form_of w) e"
    using reachable_invs [OF Cons.prems(1)] by (simp add: form_of_dispatch)
  with Cons.IH [OF r] Cons.prems show ?case by (simp add: run_def)
qed

lemma form_of_mount: "form_of mount = form_init"
  by (simp add: form_of_def form_init_def mount_def update_effect_def append_effect_def
      style_options.truncate_def merge_options_def)

text \<open>Two edits of different keys, in either order.\<close>

lemma dispatch_edit_options:
  "edit_field e \<noteq> None \<Longrightarrow> inst_options (qr (dispatch w e)) =
     (if ui (dispatch w e) = ui w then inst_options (qr w)
      else merge_options (inst_options (qr w)) (update_config (ui (dispatch w e))))"
  by (cases e) (simp_all add: edit_field_def handler_defs set_state_eq)

lemma edits_commute_ui:
  assumes "edit_field e1 = Some k1" and "edit_field e2 = Some k2" and "k1 \<noteq> k2"
  shows "ui (run w [e1, e2]) = ui (run w [e2, e1])"
  using assms
  by (cases e1; cases e2) (auto simp: edit_field_def run_def handler_defs)

lemma edits_back_to_start:
  assumes "edit_field e1 = Some k1" and "edit_field e2 = Some k2" and "k1 \<noteq> k2"
    and "ui (run w [e1, e2]) = ui w"
  shows "ui (dispatch w e1) = ui w \<and> ui (dispatch w e2) = ui w"
  using assms
  by (cases e1; cases e2) (simp_all add: edit_field_def run_def handler_defs ui_state_eq_iff)

lemma two_edits_options:
  assumes "edit_field e1 \<noteq> None" and "edit_field e2 \<noteq> None"
  shows "inst_options (qr (run w [e1, e2])) =
    (if ui (dispatch w e1) = ui w \<and> ui (run w [e1, e2]) = ui w then inst_options (qr w)
     else merge_options (inst_options (qr w)) (update_config (ui (run w [e1, e2]))))"
  using dispatch_edit_options [OF assms(1), of w] dispatch_edit_options [OF assms(2), of "dispatch w e1"]
  by (simp add: run_def)

lemma edit_keeps_readers: "edit_field e \<noteq> None \<Longrightarrow> readers (dispatch w e) = readers w \<and> next_reader (dispatch w e) = next_reader w"
  by (cases e) (simp_all add: edit_field_def step_defs)

lemma edits_keep_readers: "list_all (\<lambda>e. edit_field e \<noteq> None) es \<Longrightarrow> readers (run w es) = readers w"
  by (induction es arbitrary: w) (simp_all add: run_def edit_keeps_readers)

section \<open>Properties of the program\<close>

subsection \<open>The preview follows the state\<close>

text \<open>
  C1 (refinement). In every reachable world the options of the library instance,
  restricted to the keys the component sets, are exactly the options object that the
  update effect builds from the current hook state: what is drawn is what the form says.
\<close>

theorem sync_refinement:
  assumes "reachable w"
  shows "style_options.truncate (inst_options (qr w)) = update_config (ui w)"
  using reachable_invs [OF assms] by (simp add: sync_inv_def)

theorem sync_refinement_witness:
  "reachable (run mount demo_events) \<and>
   style_options.truncate (inst_options (qr (run mount demo_events))) = update_config (ui (run mount demo_events))"
  by (rule conjI [OF demo_reachable sync_refinement [OF demo_reachable]])

text \<open>
  C2 (refinement). The whole component refines the abstract form machine: after any
  run of events the host can deliver from the mounted page, the instance's options,
  the pending reads and the reader counter are those the form machine reaches on the
  same events. Renders, effect scheduling and the library calls are invisible.
\<close>

theorem component_refines_form:
  assumes "events_ok mount es"
  shows "form_of (run mount es) = foldl form_step form_init es"
  using form_of_run [OF reachable.mounted assms] form_of_mount by simp

theorem component_refines_form_witness:
  "events_ok mount demo_events \<and> form_of (run mount demo_events) = foldl form_step form_init demo_events"
proof -
  have ok: "events_ok mount demo_events" by (simp add: demo_events_def dot_style_options_def)
  show ?thesis using component_refines_form [OF ok] ok by simp
qed

text \<open>
  C3 (safety). In every reachable world the component has called \<open>append\<close> exactly
  once, with the preview \<open>div\<close>, and the instance is attached to that \<open>div\<close>, however
  many state changes happened.
\<close>

theorem preview_attached_once:
  assumes "reachable w"
  shows "filter is_append (calls w) = [Append PreviewDiv] \<and> inst_container (qr w) = Some PreviewDiv"
  using reachable_invs [OF assms] by (simp add: attach_inv_def)

theorem preview_attached_once_witness:
  "reachable (run mount demo_events) \<and>
   filter is_append (calls (run mount demo_events)) = [Append PreviewDiv] \<and> inst_container (qr (run mount demo_events)) = Some PreviewDiv"
  using preview_attached_once [OF demo_reachable] demo_reachable by blast

subsection \<open>Edits\<close>

text \<open>
  C4 (functional). An input that changes the value of its field makes the component
  send exactly one \<open>update\<close>, whose options differ from the current ones in that key
  only, and after it the instance's options are those options.
\<close>

theorem edit_updates_only_its_key:
  assumes "edit_key e (update_config (ui w)) = Some u" and "u \<noteq> update_config (ui w)"
  shows "calls (dispatch w e) = calls w @ [Update u]
    \<and> style_options.truncate (inst_options (qr (dispatch w e))) = u"
  using assms
  by (cases e) (auto simp: edit_key_def handler_defs set_state_eq update_config_def)

theorem edit_updates_only_its_key_witness:
  "edit_key (BgColorInput ''#ff0000'') (update_config (ui mount))
     = Some ((update_config (ui mount))\<lparr>opt_background_color := ''#ff0000''\<rparr>)
   \<and> (update_config (ui mount))\<lparr>opt_background_color := ''#ff0000''\<rparr> \<noteq> update_config (ui mount)
   \<and> calls (dispatch mount (BgColorInput ''#ff0000''))
       = calls mount @ [Update ((update_config (ui mount))\<lparr>opt_background_color := ''#ff0000''\<rparr>)]"
proof -
  have k: "edit_key (BgColorInput ''#ff0000'') (update_config (ui mount))
     = Some ((update_config (ui mount))\<lparr>opt_background_color := ''#ff0000''\<rparr>)"
    by (simp add: edit_key_def)
  have d: "(update_config (ui mount))\<lparr>opt_background_color := ''#ff0000''\<rparr> \<noteq> update_config (ui mount)"
    by (simp add: mount_def update_effect_def append_effect_def initial_ui_def update_config_def)
  show ?thesis using edit_updates_only_its_key [OF k d] k d by simp
qed

text \<open>
  C5 (functional). An input that sets its field to the value it already has changes
  nothing: React bails out, there is no render and no call on the library.
\<close>

theorem unchanged_edit_is_noop:
  assumes "edit_key e (update_config (ui w)) = Some (update_config (ui w))"
  shows "dispatch w e = w"
  using assms
  by (cases e) (auto simp: edit_key_def handler_defs set_state_eq update_config_def)

theorem unchanged_edit_is_noop_witness:
  "edit_key (DotStyleSelect ''square'') (update_config (ui mount)) = Some (update_config (ui mount))
   \<and> dispatch mount (DotStyleSelect ''square'') = mount"
proof -
  have k: "edit_key (DotStyleSelect ''square'') (update_config (ui mount)) = Some (update_config (ui mount))"
    by (simp add: edit_key_def mount_def update_effect_def append_effect_def initial_ui_def
        update_config_def)
  show ?thesis using unchanged_edit_is_noop [OF k] k by simp
qed

subsection \<open>The logo\<close>

text \<open>
  C6 (liveness). From any reachable world, picking a file and letting its read complete
  is a run the browser can deliver, and it ends with the logo set to the file's data URL
  and the instance's image set to the same string.
\<close>

theorem logo_upload_completes:
  assumes "reachable w"
  shows "reachable (run w [LogoFileInput (Some (f # fs)), ReaderLoad (next_reader w)])
    \<and> logo (ui (run w [LogoFileInput (Some (f # fs)), ReaderLoad (next_reader w)]))
        = Some (read_as_data_url f)
    \<and> opt_image (inst_options (qr (run w [LogoFileInput (Some (f # fs)), ReaderLoad (next_reader w)])))
        = Some (read_as_data_url f)"
proof -
  let ?w1 = "dispatch w (LogoFileInput (Some (f # fs)))"
  let ?w2 = "run w [LogoFileInput (Some (f # fs)), ReaderLoad (next_reader w)]"
  have fresh: "next_reader w \<notin> fst ` set (readers w)"
    using reachable_invs [OF assms] by (simp add: fresh_reader)
  have look: "map_of (readers ?w1) (next_reader w) = Some f"
    using fresh by (simp add: handleLogoUpload_pick)
  have w2: "?w2 = reader_onload (next_reader w) ?w1"
    by (simp add: run_def)
  have r2: "reachable ?w2"
    using look by (intro reachable_run [OF assms]) simp
  have l2: "logo (ui ?w2) = Some (read_as_data_url f)"
    using reader_onload_found [OF look] w2 by simp
  have "style_options.truncate (inst_options (qr ?w2)) = update_config (ui ?w2)"
    using reachable_invs [OF r2] by (simp add: sync_inv_def)
  then have "opt_image (inst_options (qr ?w2)) = opt_image (update_config (ui ?w2))"
    by (simp add: style_options.truncate_def update_config_def)
  with l2 r2 show ?thesis by (simp add: image_of_logo)
qed

theorem logo_upload_completes_witness:
  "reachable (run mount demo_events) \<and>
   logo (ui (run (run mount demo_events) [LogoFileInput (Some [demo_file]), ReaderLoad (next_reader (run mount demo_events))]))
     = Some (read_as_data_url demo_file)"
  using logo_upload_completes [OF demo_reachable, of demo_file "[]"] demo_reachable by blast

subsection \<open>Downloads and error paths\<close>

text \<open>
  C7 (functional). A download button calls the library's \<open>download\<close> exactly once,
  with the fixed name \<^verbatim>\<open>qrcode\<close> and the button's format. The library saves one
  file \<^verbatim>\<open>qrcode.<extension>\<close> holding its current QR matrix, or nothing when it has
  none; neither the state nor the options change.
\<close>

theorem download_saves_once:
  "calls (dispatch w (DownloadClick f)) = calls w @ [Download ''qrcode'' f]
   \<and> ui (dispatch w (DownloadClick f)) = ui w
   \<and> inst_options (qr (dispatch w (DownloadClick f))) = inst_options (qr w)
   \<and> inst_saved (qr (dispatch w (DownloadClick f)))
       = inst_saved (qr w) @ (case inst_qr (qr w) of
                                None \<Rightarrow> []
                              | Some d \<Rightarrow> [(''qrcode.'' @ extension_name f, d)])"
  by (simp add: download_def split: option.splits)

text \<open>
  C8 (functional). In a reachable world with non-empty text, a download saves
  \<^verbatim>\<open>qrcode.<ext>\<close> holding exactly the current text: the matrix the library
  keeps is the one of the text the user sees.
\<close>

theorem download_saves_current_text:
  assumes "reachable w" and "text_value (ui w) \<noteq> []"
  shows "inst_saved (qr (dispatch w (DownloadClick f)))
    = inst_saved (qr w) @ [(''qrcode.'' @ extension_name f, text_value (ui w))]"
proof -
  have "inst_qr (qr w) = Some (text_value (ui w))"
    using reachable_invs [OF assms(1)] assms(2) by (simp add: qr_inv_def)
  then show ?thesis by (simp add: download_def)
qed

theorem download_saves_current_text_witness:
  "reachable (run mount demo_events) \<and> text_value (ui (run mount demo_events)) \<noteq> []
   \<and> inst_saved (qr (dispatch (run mount demo_events) (DownloadClick Png)))
       = inst_saved (qr (run mount demo_events)) @ [(''qrcode.png'', ''https://example.org'')]"
  using download_saves_current_text [OF demo_reachable, of Png] demo_reachable demo_text by simp

text \<open>
  C9 (error). With empty text the preview is blank and nothing tells the user, yet a
  download still saves a file: the QR code of the last non-empty text the component ever
  sent to the library, never the empty current text, or nothing when no text was ever
  sent.
\<close>

theorem download_with_empty_text:
  assumes "reachable w" and "text_value (ui w) = []"
  shows "\<not> inst_shown (qr w)
    \<and> inst_saved (qr (dispatch w (DownloadClick f)))
        = inst_saved (qr w) @ (case sent_data None (calls w) of
                                 None \<Rightarrow> []
                               | Some d \<Rightarrow> [(''qrcode.'' @ extension_name f, d)])
    \<and> sent_data None (calls w) \<noteq> Some (text_value (ui w))"
proof -
  have r: "replay_inv w" and s: "shown_inv w" using reachable_invs [OF assms(1)] by simp_all
  have q: "inst_qr (qr w) = sent_data None (calls w)"
    using r by (simp add: replay_inv_def inst_qr_apply_all initial_options_def)
  show ?thesis
    using s assms(2) q sent_data_nonempty [of None "calls w"]
    by (simp add: shown_inv_def download_def split: option.splits)
qed

theorem download_with_empty_text_witness:
  "reachable (run mount [TextInput ''abc'', TextInput []])
   \<and> text_value (ui (run mount [TextInput ''abc'', TextInput []])) = []
   \<and> inst_saved (qr (dispatch (run mount [TextInput ''abc'', TextInput []]) (DownloadClick Png)))
       = inst_saved (qr (run mount [TextInput ''abc'', TextInput []])) @
         (case sent_data None (calls (run mount [TextInput ''abc'', TextInput []])) of
            None \<Rightarrow> [] | Some d \<Rightarrow> [(''qrcode.'' @ extension_name Png, d)])"
proof -
  have r: "reachable (run mount [TextInput ''abc'', TextInput []])"
    by (rule reachable_run [OF reachable.mounted]) simp
  have t: "text_value (ui (run mount [TextInput ''abc'', TextInput []])) = []"
    by (simp add: run_def setText_def)
  show ?thesis using download_with_empty_text [OF r t, of Png] r t by blast
qed

text \<open>
  C10 (error). With no file selected (\<open>files\<close> null or empty) the upload handler
  returns early: the world is unchanged, no reader is started.
\<close>

theorem no_file_selected_noop:
  "dispatch w (LogoFileInput None) = w \<and> dispatch w (LogoFileInput (Some [])) = w"
  by (simp add: handleLogoUpload_def)

text \<open>
  C11 (error). A read that fails ends its reader and nothing else: the state, the
  instance and the calls are unchanged, so the logo keeps its previous value.
\<close>

theorem read_failure_keeps_state:
  "ui (dispatch w (ReaderError r)) = ui w \<and> qr (dispatch w (ReaderError r)) = qr w
   \<and> calls (dispatch w (ReaderError r)) = calls w
   \<and> readers (dispatch w (ReaderError r)) = AList.delete r (readers w)"
  by (simp add: reader_onerror_def)

subsection \<open>Values passed to the library\<close>

text \<open>
  C12 (type). The style values the component passes to the library are always in the
  vocabularies of the library's \<open>DotType\<close>, \<open>CornerDotType\<close> and
  \<open>CornerSquareType\<close>: the unchecked casts \<open>e.target.value as DotType\<close> are safe.
\<close>

theorem styles_in_library_vocabulary:
  assumes "reachable w"
  shows "opt_dots_type (inst_options (qr w)) \<in> set dot_types
    \<and> opt_corners_dot_type (inst_options (qr w)) \<in> set corner_dot_types
    \<and> opt_corners_square_type (inst_options (qr w)) \<in> set corner_square_types"
proof -
  have s: "style_options.truncate (inst_options (qr w)) = update_config (ui w)"
    and v: "vocab_inv w"
    using reachable_invs [OF assms] by (simp_all add: sync_inv_def)
  from s have "opt_dots_type (inst_options (qr w)) = dotStyle (ui w)
      \<and> opt_corners_dot_type (inst_options (qr w)) = cornerDotStyle (ui w)
      \<and> opt_corners_square_type (inst_options (qr w)) = cornerSquareStyle (ui w)"
    by (simp add: style_options.truncate_def update_config_def)
  with v show ?thesis
    by (auto simp: vocab_inv_def dot_style_options_def corner_dot_style_options_def
        corner_square_style_options_def dot_types_def corner_dot_types_def corner_square_types_def)
qed

theorem styles_in_library_vocabulary_witness:
  "reachable (run mount demo_events) \<and> opt_dots_type (inst_options (qr (run mount demo_events))) \<in> set dot_types
   \<and> opt_corners_dot_type (inst_options (qr (run mount demo_events))) \<in> set corner_dot_types
   \<and> opt_corners_square_type (inst_options (qr (run mount demo_events))) \<in> set corner_square_types"
  using styles_in_library_vocabulary [OF demo_reachable] demo_reachable by blast

text \<open>
  C13 (invariant). The dot and background colours held by the instance are always valid
  simple colours (\<open>#\<close> and six lower-case hex digits).
\<close>

theorem colors_valid:
  assumes "reachable w"
  shows "valid_simple_color (opt_dots_color (inst_options (qr w)))
    \<and> valid_simple_color (opt_background_color (inst_options (qr w)))"
proof -
  have s: "style_options.truncate (inst_options (qr w)) = update_config (ui w)"
    and c: "color_inv w"
    using reachable_invs [OF assms] by (simp_all add: sync_inv_def)
  from s have "opt_dots_color (inst_options (qr w)) = fgColor (ui w)
      \<and> opt_background_color (inst_options (qr w)) = bgColor (ui w)"
    by (simp add: style_options.truncate_def update_config_def)
  with c show ?thesis by (simp add: color_inv_def)
qed

theorem colors_valid_witness:
  "reachable (run mount demo_events) \<and> valid_simple_color (opt_dots_color (inst_options (qr (run mount demo_events))))
   \<and> valid_simple_color (opt_background_color (inst_options (qr (run mount demo_events))))"
  using colors_valid [OF demo_reachable] demo_reachable by blast

text \<open>
  C14 (invariant). The preview shows a symbol exactly when the text is non-empty: the
  library draws nothing for empty data, and every update clears and redraws.
\<close>

theorem preview_shown_iff_text:
  assumes "reachable w"
  shows "inst_shown (qr w) \<longleftrightarrow> text_value (ui w) \<noteq> []"
  using reachable_invs [OF assms] by (simp add: shown_inv_def)

theorem preview_shown_iff_text_witness:
  "reachable (run mount demo_events) \<and> (inst_shown (qr (run mount demo_events)) \<longleftrightarrow> text_value (ui (run mount demo_events)) \<noteq> [])"
  using preview_shown_iff_text [OF demo_reachable] demo_reachable by blast

text \<open>
  C15 (invariant). The instance keeps the size and draw type of its constructor call:
  300 by 300, SVG. No update changes them.
\<close>

theorem instance_size_fixed:
  assumes "reachable w"
  shows "opt_width (inst_options (qr w)) = 300 \<and> opt_height (inst_options (qr w)) = 300
    \<and> opt_draw (inst_options (qr w)) = DrawSvg"
  using reachable_invs [OF assms] by (simp add: frame_inv_def)

theorem instance_size_fixed_witness:
  "reachable (run mount demo_events) \<and> opt_width (inst_options (qr (run mount demo_events))) = 300
   \<and> opt_height (inst_options (qr (run mount demo_events))) = 300 \<and> opt_draw (inst_options (qr (run mount demo_events))) = DrawSvg"
  using instance_size_fixed [OF demo_reachable] demo_reachable by blast

subsection \<open>Renders, readers and the call log\<close>

text \<open>
  C16 (invariant). A \<open>QRCodeStyling\<close> object is constructed on every render, not once:
  the number of objects built equals the number of renders, which equals the number of
  \<open>update\<close> calls.
\<close>

theorem instance_per_render:
  assumes "reachable w"
  shows "instances_created w = renders w \<and> renders w = length (filter is_update (calls w))"
  using reachable_invs [OF assms] by (simp add: render_inv_def)

theorem instance_per_render_witness:
  "reachable (run mount demo_events) \<and> instances_created (run mount demo_events) = renders (run mount demo_events)
   \<and> renders (run mount demo_events) = length (filter is_update (calls (run mount demo_events)))"
  using instance_per_render [OF demo_reachable] demo_reachable by blast

text \<open>
  C17 (safety). Two uploads whose reads complete in the reverse order of the picks can
  happen, and they leave the logo of the file picked first: the last read to complete
  wins, not the last pick.
\<close>

theorem upload_race_earlier_file_wins:
  assumes "reachable w"
  shows "reachable (run w [LogoFileInput (Some [f1]), LogoFileInput (Some [f2]),
                           ReaderLoad (Suc (next_reader w)), ReaderLoad (next_reader w)])
    \<and> logo (ui (run w [LogoFileInput (Some [f1]), LogoFileInput (Some [f2]),
                        ReaderLoad (Suc (next_reader w)), ReaderLoad (next_reader w)]))
        = Some (read_as_data_url f1)"
proof -
  let ?n = "next_reader w"
  let ?w1 = "dispatch w (LogoFileInput (Some [f1]))"
  let ?w2 = "dispatch ?w1 (LogoFileInput (Some [f2]))"
  let ?w3 = "dispatch ?w2 (ReaderLoad (Suc ?n))"
  have "reader_inv w" using reachable_invs [OF assms] by simp
  then have fresh: "?n \<notin> fst ` set (readers w)" and fresh1: "Suc ?n \<notin> fst ` set (readers w)"
    by (auto simp: reader_inv_def list_all_iff)
  have rd2: "readers ?w2 = readers w @ [(?n, f1), (Suc ?n, f2)]"
    by (simp add: handleLogoUpload_pick)
  have look2: "map_of (readers ?w2) (Suc ?n) = Some f2"
    using fresh1 rd2 by simp
  have rd3: "readers ?w3 = readers w @ [(?n, f1)]"
    using reader_onload_found [OF look2] rd2 fresh1 by simp
  have look3: "map_of (readers ?w3) ?n = Some f1"
    using fresh rd3 by simp
  have run: "run w [LogoFileInput (Some [f1]), LogoFileInput (Some [f2]),
                    ReaderLoad (Suc ?n), ReaderLoad ?n] = dispatch ?w3 (ReaderLoad ?n)"
    by (simp add: run_def)
  have ok: "events_ok w [LogoFileInput (Some [f1]), LogoFileInput (Some [f2]),
                    ReaderLoad (Suc ?n), ReaderLoad ?n]"
    using look2 look3 by simp
  show ?thesis
    using reachable_run [OF assms ok] reader_onload_found [OF look3] run by simp
qed

theorem upload_race_earlier_file_wins_witness:
  "reachable (run mount demo_events) \<and>
   logo (ui (run (run mount demo_events) [LogoFileInput (Some [demo_file]), LogoFileInput (Some [\<lparr>file_type = [], file_bytes = []\<rparr>]),
                       ReaderLoad (Suc (next_reader (run mount demo_events))), ReaderLoad (next_reader (run mount demo_events))]))
     = Some (read_as_data_url demo_file)"
  using upload_race_earlier_file_wins [OF demo_reachable, of demo_file "\<lparr>file_type = [], file_bytes = []\<rparr>"]
    demo_reachable
  by blast

text \<open>
  C18 (safety). Once a logo is set, no event clears it: the component has no way to
  remove an uploaded logo.
\<close>

theorem logo_never_cleared:
  assumes "logo (ui w) \<noteq> None"
  shows "logo (ui (dispatch w e)) \<noteq> None"
  using assms
  by (cases e) (auto simp: handler_defs split: option.splits list.splits)

theorem logo_never_cleared_witness:
  "logo (ui (dispatch (run mount demo_events) (ReaderLoad 0))) \<noteq> None
   \<and> logo (ui (dispatch (dispatch (run mount demo_events) (ReaderLoad 0)) (TextInput ''''))) \<noteq> None"
proof -
  have h: "logo (ui (dispatch (run mount demo_events) (ReaderLoad 0))) \<noteq> None"
    using reader_onload_found [OF demo_pending] by simp
  show ?thesis using logo_never_cleared [OF h, of "TextInput ''''"] h by simp
qed

text \<open>
  C19 (refinement). The instance held in the ref is exactly the result of replaying, from
  the constructor, the log of calls the component made on it: the component changes
  the library only through \<open>append\<close>, \<open>update\<close> and \<open>download\<close>.
\<close>

theorem calls_replay:
  assumes "reachable w"
  shows "qr w = qr_apply_all (qr_construct initial_options) (calls w)"
  using reachable_invs [OF assms] by (simp add: replay_inv_def)

theorem calls_replay_witness:
  "reachable (run mount demo_events) \<and> qr (run mount demo_events) = qr_apply_all (qr_construct initial_options) (calls (run mount demo_events))"
  using calls_replay [OF demo_reachable] demo_reachable by blast

text \<open>
  C20 (roundtrip). When a pending read completes, the image the component passes to the
  library is a data URL that reads back to the picked file's type and bytes (for a file
  type without a comma).
\<close>

theorem logo_embeds_file:
  assumes "map_of (readers w) r = Some f" and "CHR '','' \<notin> set (file_type f)"
  shows "map_option parse_data_url (opt_image (update_config (ui (dispatch w (ReaderLoad r)))))
    = Some (Some (data_url_type (file_type f), file_bytes f))"
proof -
  have "opt_image (update_config (ui (dispatch w (ReaderLoad r)))) = Some (read_as_data_url f)"
    using reader_onload_found [OF assms(1)] by (simp add: image_of_logo)
  then show ?thesis using parse_read_as_data_url [OF assms(2)] by simp
qed

theorem logo_embeds_file_witness:
  "map_of (readers (run mount demo_events)) 0 = Some demo_file \<and> CHR '','' \<notin> set (file_type demo_file)
   \<and> map_option parse_data_url (opt_image (update_config (ui (dispatch (run mount demo_events) (ReaderLoad 0)))))
       = Some (Some (''image/png'', [137, 80, 78, 71]))"
proof -
  have c: "CHR '','' \<notin> set (file_type demo_file)" by (simp add: demo_file_def)
  show ?thesis
    using logo_embeds_file [OF demo_pending c] demo_pending c
    by (simp add: demo_file_def data_url_type_def)
qed

subsection \<open>Runs, ordering and the encoder\<close>

text \<open>
  C21 (functional). Two edits of different keys give the same state and the same
  library options in either order: the effect rebuilds the whole options object from
  the state, so the order in which the user touches two inputs does not matter.
\<close>

theorem edits_commute:
  assumes "edit_field e1 = Some k1" and "edit_field e2 = Some k2" and "k1 \<noteq> k2"
  shows "ui (run w [e1, e2]) = ui (run w [e2, e1])
    \<and> inst_options (qr (run w [e1, e2])) = inst_options (qr (run w [e2, e1]))"
proof -
  have n: "edit_field e1 \<noteq> None" "edit_field e2 \<noteq> None" using assms by simp_all
  have c: "ui (run w [e1, e2]) = ui (run w [e2, e1])"
    using assms by (rule edits_commute_ui)
  have b1: "ui (run w [e1, e2]) = ui w \<Longrightarrow> ui (dispatch w e1) = ui w \<and> ui (dispatch w e2) = ui w"
    using assms edits_back_to_start by blast
  have ab: "(ui (dispatch w e1) = ui w \<and> ui (run w [e1, e2]) = ui w)
      = (ui (dispatch w e2) = ui w \<and> ui (run w [e2, e1]) = ui w)"
    using b1 c by metis
  have m: "merge_options (inst_options (qr w)) (update_config (ui (run w [e1, e2])))
      = merge_options (inst_options (qr w)) (update_config (ui (run w [e2, e1])))"
    using c by (rule arg_cong)
  have "inst_options (qr (run w [e1, e2])) = inst_options (qr (run w [e2, e1]))"
    unfolding two_edits_options [OF n, of w] two_edits_options [OF n(2) n(1), of w]
    by (rule if_cong [OF ab refl m])
  with c show ?thesis by (rule conjI)
qed

theorem edits_commute_witness:
  "edit_field (DotStyleSelect ''dots'') = Some ''dotsOptions.type''
   \<and> edit_field (FgColorInput ''#ff0000'') = Some ''dotsOptions.color''
   \<and> inst_options (qr (run mount [DotStyleSelect ''dots'', FgColorInput ''#ff0000'']))
       = inst_options (qr (run mount [FgColorInput ''#ff0000'', DotStyleSelect ''dots'']))"
proof -
  have k1: "edit_field (DotStyleSelect ''dots'') = Some ''dotsOptions.type''" by (simp add: edit_field_def)
  have k2: "edit_field (FgColorInput ''#ff0000'') = Some ''dotsOptions.color''" by (simp add: edit_field_def)
  have ne: "''dotsOptions.type'' \<noteq> ''dotsOptions.color''" by simp
  show ?thesis using edits_commute [OF k1 k2 ne, of mount] k1 k2 by blast
qed

subsection \<open>Termination, bounds and interleaving\<close>

text \<open>
  C22 (bounds). Every event renders the component at most once, so a run of events
  causes at most as many renders, and constructs at most as many \<open>QRCodeStyling\<close>
  objects, as it has events.
\<close>

theorem renders_bounded:
  "renders (run w es) \<le> renders w + length es \<and> instances_created (run w es) \<le> instances_created w + length es"
proof (induction es arbitrary: w)
  case Nil
  then show ?case by (simp add: run_def)
next
  case (Cons e es)
  from Cons.IH [of "dispatch w e"] dispatch_renders [of w e] show ?case by (simp add: run_def)
qed

text \<open>
  C23 (liveness). Edits made while a read is in flight do not stop it: after picking a
  file, any sequence of edits, then the completion of that read, the logo is the file's
  data URL.
\<close>

theorem upload_survives_edits:
  assumes "reachable w" and "list_all (\<lambda>e. edit_field e \<noteq> None) es"
  shows "logo (ui (run w (LogoFileInput (Some (f # fs)) # es @ [ReaderLoad (next_reader w)])))
    = Some (read_as_data_url f)"
proof -
  let ?w1 = "dispatch w (LogoFileInput (Some (f # fs)))"
  have fresh: "next_reader w \<notin> fst ` set (readers w)"
    using reachable_invs [OF assms(1)] by (simp add: fresh_reader)
  have "map_of (readers ?w1) (next_reader w) = Some f"
    using fresh by (simp add: handleLogoUpload_pick)
  then have look: "map_of (readers (run ?w1 es)) (next_reader w) = Some f"
    using edits_keep_readers [OF assms(2)] by simp
  have "run w (LogoFileInput (Some (f # fs)) # es @ [ReaderLoad (next_reader w)])
      = reader_onload (next_reader w) (run ?w1 es)"
    by (simp add: run_def)
  with reader_onload_found [OF look] show ?thesis by simp
qed

theorem upload_survives_edits_witness:
  "reachable (run mount demo_events)
   \<and> list_all (\<lambda>e. edit_field e \<noteq> None) [TextInput ''x'', BgColorInput ''#000000'']
   \<and> logo (ui (run (run mount demo_events)
        (LogoFileInput (Some [demo_file]) # [TextInput ''x'', BgColorInput ''#000000'']
         @ [ReaderLoad (next_reader (run mount demo_events))])))
       = Some (read_as_data_url demo_file)"
proof -
  have e: "list_all (\<lambda>e. edit_field e \<noteq> None) [TextInput ''x'', BgColorInput ''#000000'']"
    by (simp add: edit_field_def)
  show ?thesis using upload_survives_edits [OF demo_reachable e, of demo_file "[]"] demo_reachable e
    by blast
qed

subsection \<open>Stale completions and the library's object\<close>

end
